theory Spec2Isabelle
  imports Complex_Main "HOL-Library.Word"
begin

section \<open>Data model\<close>

text \<open>
  JavaScript numbers are modelled as reals, so every statement below is about the
  arithmetic the code writes down, without rounding; the two exceptions are the section
  on double-precision arithmetic, which rounds every operation, and the section on the
  position list, whose numbers can be infinite or \<open>NaN\<close>. Strings are \<open>string\<close>;
  identifiers (sensor keys, hashed MAC addresses, timestamps) are read one code unit
  per character.
\<close>

text \<open>The object \<open>{ x, y }\<close> returned by \<open>gpsToMeters\<close>.\<close>

record xy =
  xc :: real
  yc :: real

text \<open>The object \<open>{ lat, lng }\<close> returned by \<open>metersToGps\<close>.\<close>

record gps =
  lat :: real
  lng :: real

text \<open>
  One observation handed to \<open>trilaterate\<close>. The fields \<open>rssi\<close>,
  \<open>mac_hashed\<close>, \<open>original_timestamp\<close> and \<open>time_offset_ms\<close> are optional
  properties of the JavaScript object: \<open>None\<close> is \<open>undefined\<close>.
\<close>

record observation =
  sensor_id :: string
  distance :: real
  rssi :: "real option"
  sensor_lat :: real
  sensor_lng :: real
  mac_hashed :: "string option"
  original_timestamp :: "string option"
  time_offset_ms :: "int option"

text \<open>An observation with its local position: \<open>{ ...o, pos: gpsToMeters(...) }\<close>.\<close>

record point = observation +
  pos :: xy

text \<open>
  The estimate in local meters. \<open>estimateTwoSensorPosition\<close> leaves \<open>variance\<close>
  out when the two sensors coincide.
\<close>

record estpos = xy +
  est_variance :: "real option"

datatype quality = High | Medium | Low

text \<open>The object returned by \<open>trilaterate\<close>.\<close>

record estimate = gps +
  qualityLevel :: quality
  sensorCount :: nat
  observations :: "observation list"
  confidence :: real
  variance :: real

section \<open>Projection\<close>

definition earthRadius :: real where
  "earthRadius = 6371000"

definition gpsToMeters :: "real \<Rightarrow> real \<Rightarrow> real \<Rightarrow> real \<Rightarrow> xy" where
  "gpsToMeters la lo refLa refLo =
     (let latRad = refLa * pi / 180;
          x = (lo - refLo) * pi / 180 * earthRadius * cos latRad;
          y = (la - refLa) * pi / 180 * earthRadius
      in \<lparr>xc = x, yc = y\<rparr>)"

definition metersToGps :: "real \<Rightarrow> real \<Rightarrow> real \<Rightarrow> real \<Rightarrow> gps" where
  "metersToGps x y refLa refLo =
     (let latRad = refLa * pi / 180;
          la = refLa + (y / earthRadius) * (180 / pi);
          lo = refLo + (x / (earthRadius * cos latRad)) * (180 / pi)
      in \<lparr>lat = la, lng = lo\<rparr>)"

definition distanceP :: "'a xy_scheme \<Rightarrow> 'b xy_scheme \<Rightarrow> real" where
  "distanceP p1 p2 = sqrt ((xc p2 - xc p1)\<^sup>2 + (yc p2 - yc p1)\<^sup>2)"

section \<open>Lateration\<close>

subsection \<open>Two sensors\<close>

definition estimateTwoSensorPosition :: "point list \<Rightarrow> estpos" where
  "estimateTwoSensorPosition points =
     (let p1 = points ! 0;
          p2 = points ! 1;
          dx = xc (pos p2) - xc (pos p1);
          dy = yc (pos p2) - yc (pos p1);
          sensorDist = sqrt (dx * dx + dy * dy)
      in if sensorDist = 0
         then \<lparr>xc = xc (pos p1), yc = yc (pos p1), est_variance = None\<rparr>
         else
           (let d1 = distance p1;
                d2 = distance p2;
                t0 = (sensorDist * sensorDist + d1 * d1 - d2 * d2) / (2 * sensorDist * sensorDist);
                t = max (- 0.5) (min 1.5 t0)
            in \<lparr>xc = xc (pos p1) + t * dx,
                yc = yc (pos p1) + t * dy,
                est_variance = Some \<bar>d1 + d2 - sensorDist\<bar>\<rparr>))"

subsection \<open>Three or more sensors\<close>

text \<open>
  \<open>pi.rssi ? Math.pow(10, (pi.rssi + 100) / 20) : 1\<close>: the test is JavaScript
  truthiness, so both a missing \<open>rssi\<close> and the number \<open>0\<close> take the second branch.
\<close>

definition rssiWeight :: "real option \<Rightarrow> real" where
  "rssiWeight r =
     (case r of
        None \<Rightarrow> 1
      | Some v \<Rightarrow> if v \<noteq> 0 then 10 powr ((v + 100) / 20) else 1)"

text \<open>The rows pushed to \<open>A\<close>, \<open>b\<close> and \<open>weights\<close> for one sensor \<open>pi\<close>.\<close>

definition rowA :: "point \<Rightarrow> point \<Rightarrow> real \<times> real" where
  "rowA ref p = (2 * (xc (pos p) - xc (pos ref)), 2 * (yc (pos p) - yc (pos ref)))"

definition rowB :: "point \<Rightarrow> point \<Rightarrow> real" where
  "rowB ref p =
     distance ref * distance ref - distance p * distance p +
     xc (pos p) * xc (pos p) - xc (pos ref) * xc (pos ref) +
     yc (pos p) * yc (pos p) - yc (pos ref) * yc (pos ref)"

definition rowW :: "point \<Rightarrow> real" where
  "rowW p = (let distWeight = 1 / (distance p + 1) in distWeight * rssiWeight (rssi p))"

text \<open>The loop \<open>for (let i = 1; i < n; i++)\<close> over \<open>points\<close>, with \<open>ref = points[0]\<close>.\<close>

definition linearSystem :: "point list \<Rightarrow> (real \<times> real) list \<times> real list \<times> real list" where
  "linearSystem points =
     (let ref = points ! 0;
          others = map (\<lambda>i. points ! i) [1..<length points]
      in (map (rowA ref) others, map (rowB ref) others, map rowW others))"

text \<open>The six accumulators of \<open>solveWeightedLeastSquares\<close>.\<close>

definition accum :: "(nat \<Rightarrow> real) \<Rightarrow> nat \<Rightarrow> real" where
  "accum f n = foldl (\<lambda>s i. s + f i) 0 [0..<n]"

definition ata00 :: "(real \<times> real) list \<Rightarrow> real list \<Rightarrow> real" where
  "ata00 A w = accum (\<lambda>i. w ! i * fst (A ! i) * fst (A ! i)) (length A)"

definition ata01 :: "(real \<times> real) list \<Rightarrow> real list \<Rightarrow> real" where
  "ata01 A w = accum (\<lambda>i. w ! i * fst (A ! i) * snd (A ! i)) (length A)"

definition ata10 :: "(real \<times> real) list \<Rightarrow> real list \<Rightarrow> real" where
  "ata10 A w = accum (\<lambda>i. w ! i * snd (A ! i) * fst (A ! i)) (length A)"

definition ata11 :: "(real \<times> real) list \<Rightarrow> real list \<Rightarrow> real" where
  "ata11 A w = accum (\<lambda>i. w ! i * snd (A ! i) * snd (A ! i)) (length A)"

definition atb0 :: "(real \<times> real) list \<Rightarrow> real list \<Rightarrow> real list \<Rightarrow> real" where
  "atb0 A b w = accum (\<lambda>i. w ! i * fst (A ! i) * b ! i) (length A)"

definition atb1 :: "(real \<times> real) list \<Rightarrow> real list \<Rightarrow> real list \<Rightarrow> real" where
  "atb1 A b w = accum (\<lambda>i. w ! i * snd (A ! i) * b ! i) (length A)"

text \<open>
  The determinant and the solver below are over the reals: they give the value that the
  formulas of the source denote. The source evaluates them in double precision, where the
  determinant of a singular matrix is rounding noise and can exceed the threshold. That
  evaluation is \<open>det64\<close> and \<open>solveWeightedLeastSquares64\<close> in the section on
  double-precision arithmetic.
\<close>

definition det :: "(real \<times> real) list \<Rightarrow> real list \<Rightarrow> real" where
  "det A w = ata00 A w * ata11 A w - ata01 A w * ata10 A w"

definition solveWeightedLeastSquares ::
  "(real \<times> real) list \<Rightarrow> real list \<Rightarrow> real list \<Rightarrow> xy" where
  "solveWeightedLeastSquares A b w =
     (let n = length A in
      if \<bar>det A w\<bar> < 1 / 10 ^ 10
      then
        (let cx = accum (\<lambda>i. fst (A ! i)) n;
             cy = accum (\<lambda>i. snd (A ! i)) n
         in \<lparr>xc = cx / real n, yc = cy / real n\<rparr>)
      else
        \<lparr>xc = (ata11 A w * atb0 A b w - ata01 A w * atb1 A b w) / det A w,
         yc = (ata00 A w * atb1 A b w - ata10 A w * atb0 A b w) / det A w\<rparr>)"

definition estimateMultiSensorPosition :: "point list \<Rightarrow> estpos" where
  "estimateMultiSensorPosition points =
     (case linearSystem points of
        (A, b, weights) \<Rightarrow>
          (let result = solveWeightedLeastSquares A b weights;
               sumSqResiduals =
                 foldl (\<lambda>s p. s + (distanceP result (pos p) - distance p)\<^sup>2) 0 points
           in \<lparr>xc = xc result, yc = yc result,
               est_variance = Some (sqrt (sumSqResiduals / real (length points)))\<rparr>))"

subsection \<open>Quality, confidence, residual\<close>

definition calculateResidual :: "estpos \<Rightarrow> point list \<Rightarrow> real" where
  "calculateResidual estimatedPos points =
     foldl (\<lambda>totalError p. totalError + \<bar>distanceP estimatedPos (pos p) - distance p\<bar>) 0 points
       / real (length points)"

definition getQualityLevel :: "nat \<Rightarrow> quality" where
  "getQualityLevel sensorCnt =
     (if sensorCnt \<ge> 3 then High else if sensorCnt = 2 then Medium else Low)"

definition getConfidenceFromSensorCount :: "nat \<Rightarrow> real" where
  "getConfidenceFromSensorCount sensorCnt =
     (if sensorCnt \<ge> 3 then 1.0 else if sensorCnt = 2 then 0.5 else 0.2)"

subsection \<open>One sensor: the bearing\<close>

text \<open>
  \<open>hash = ((hash << 5) - hash) + charCodeAt(i); hash = hash & hash\<close>: after each
  round the value is a signed 32-bit integer, so the accumulator is a 32-bit word
  read with \<open>sint\<close>.
\<close>

definition hashStep :: "32 word \<Rightarrow> char \<Rightarrow> 32 word" where
  "hashStep h c = (push_bit 5 h - h) + of_nat (of_char c)"

definition macHash :: "string \<Rightarrow> int" where
  "macHash s = sint (foldl hashStep 0 s)"

definition bearing :: "string option \<Rightarrow> real" where
  "bearing m =
     (case m of
        None \<Rightarrow> 0
      | Some s \<Rightarrow> if s = [] then 0 else real_of_int (\<bar>macHash s\<bar> mod 360) * pi / 180)"

subsection \<open>The solver\<close>

definition validObs :: "observation list \<Rightarrow> observation list" where
  "validObs obs = filter (\<lambda>ob. distance ob > 0 \<and> distance ob < 200) obs"

definition refLatOf :: "observation list \<Rightarrow> real" where
  "refLatOf vs = foldl (\<lambda>s ob. s + sensor_lat ob) 0 vs / real (length vs)"

definition refLngOf :: "observation list \<Rightarrow> real" where
  "refLngOf vs = foldl (\<lambda>s ob. s + sensor_lng ob) 0 vs / real (length vs)"

definition toPoint :: "real \<Rightarrow> real \<Rightarrow> observation \<Rightarrow> point" where
  "toPoint refLa refLo ob =
     observation.extend ob
       (point.fields (gpsToMeters (sensor_lat ob) (sensor_lng ob) refLa refLo))"

definition projectPoints :: "observation list \<Rightarrow> point list" where
  "projectPoints vs = map (toPoint (refLatOf vs) (refLngOf vs)) vs"

text \<open>\<open>estimatedPos.variance || residual\<close>: a missing or zero variance is falsy.\<close>

definition varianceOr :: "real option \<Rightarrow> real \<Rightarrow> real" where
  "varianceOr v residual =
     (case v of None \<Rightarrow> residual | Some u \<Rightarrow> if u \<noteq> 0 then u else residual)"

definition trilaterate :: "observation list \<Rightarrow> estimate option" where
  "trilaterate obs =
     (let vs = validObs obs in
      if length vs < 1 then None
      else
        (let refLa = refLatOf vs;
             refLo = refLngOf vs;
             points = projectPoints vs;
             (estimatedPos, gpsResult) =
               (if length vs = 1 then
                  (let sensor = vs ! 0;
                       distanceMeters = distance sensor;
                       angle = bearing (mac_hashed sensor);
                       latOffset = (distanceMeters * cos angle / earthRadius) * (180 / pi);
                       lngOffset =
                         (distanceMeters * sin angle /
                            (earthRadius * cos (sensor_lat sensor * pi / 180))) * (180 / pi)
                   in (\<lparr>xc = distanceMeters * sin angle, yc = distanceMeters * cos angle,
                         est_variance = Some distanceMeters\<rparr>,
                       \<lparr>lat = sensor_lat sensor + latOffset,
                        lng = sensor_lng sensor + lngOffset\<rparr>))
                else if length vs = 2 then
                  (let e = estimateTwoSensorPosition points
                   in (e, metersToGps (xc e) (yc e) refLa refLo))
                else
                  (let e = estimateMultiSensorPosition points
                   in (e, metersToGps (xc e) (yc e) refLa refLo)));
             residual =
               (if length vs > 1 then calculateResidual estimatedPos points
                else distance (vs ! 0))
         in Some \<lparr>lat = lat gpsResult, lng = lng gpsResult,
                  qualityLevel = getQualityLevel (length vs),
                  sensorCount = length vs,
                  observations = vs,
                  confidence = getConfidenceFromSensorCount (length vs),
                  variance = varianceOr (est_variance estimatedPos) residual\<rparr>))"

section \<open>Double-precision arithmetic\<close>

text \<open>
  JavaScript numbers are IEEE 754 binary64 values, and every arithmetic operation returns
  its exact result rounded to the nearest such value, ties going to the even mantissa.
  \<open>binary64 v\<close> is that rounding of the real number \<open>v\<close>: the value is scaled by powers
  of two until its magnitude lies in \<open>[2 ^ 52, 2 ^ 53)\<close>, rounded to an integer there and
  scaled back. The scaling takes up to 2200 steps, more than the exponent range of
  binary64, and no result is turned into an infinity or a subnormal number: overflow and
  gradual underflow are not represented, and the function is applied below only to
  values far from both.
\<close>

definition roundHalfEven :: "real \<Rightarrow> int" where
  "roundHalfEven q =
     (let f = \<lfloor>q\<rfloor>; r = q - of_int f
      in if r < 1 / 2 then f else if r > 1 / 2 then f + 1 else if even f then f else f + 1)"

fun scaleMantissa :: "nat \<Rightarrow> real \<Rightarrow> int \<Rightarrow> (real \<times> int) option" where
  "scaleMantissa 0 q e = None"
| "scaleMantissa (Suc fuel) q e =
     (if \<bar>q\<bar> \<ge> 2 ^ 53 then scaleMantissa fuel (q / 2) (e + 1)
      else if \<bar>q\<bar> < 2 ^ 52 then scaleMantissa fuel (q * 2) (e - 1)
      else Some (q, e))"

definition pow2 :: "int \<Rightarrow> real" where
  "pow2 e = (if e \<ge> 0 then 2 ^ nat e else 1 / 2 ^ nat (- e))"

definition binary64 :: "real \<Rightarrow> real" where
  "binary64 v =
     (if v = 0 then 0
      else case scaleMantissa 2200 v 0 of
             None \<Rightarrow> 0
           | Some (q, e) \<Rightarrow> of_int (roundHalfEven q) * pow2 e)"

definition fadd :: "real \<Rightarrow> real \<Rightarrow> real" where
  "fadd a b = binary64 (a + b)"

definition fsub :: "real \<Rightarrow> real \<Rightarrow> real" where
  "fsub a b = binary64 (a - b)"

definition fmul :: "real \<Rightarrow> real \<Rightarrow> real" where
  "fmul a b = binary64 (a * b)"

definition fdiv :: "real \<Rightarrow> real \<Rightarrow> real" where
  "fdiv a b = binary64 (a / b)"

text \<open>
  \<open>const distWeight = 1 / (pi.distance + 1)\<close> and
  \<open>weights.push(distWeight * rssiWeight)\<close>, for a given value of \<open>rssiWeight\<close>
  (\<open>1\<close> when the reading has no signal strength).
\<close>

definition rowW64 :: "real \<Rightarrow> real \<Rightarrow> real" where
  "rowW64 d rssiW = (let distWeight = fdiv 1 (fadd d 1) in fmul distWeight rssiW)"

text \<open>
  \<open>solveWeightedLeastSquares\<close> again, operation by operation as the source writes it:
  \<open>ata00 += wi * A[i][0] * A[i][0]\<close> is two products and one sum, each rounded.
\<close>

definition accum64 :: "(nat \<Rightarrow> real) \<Rightarrow> nat \<Rightarrow> real" where
  "accum64 f n = foldl (\<lambda>s i. fadd s (f i)) 0 [0..<n]"

definition ata00_64 :: "(real \<times> real) list \<Rightarrow> real list \<Rightarrow> real" where
  "ata00_64 A w = accum64 (\<lambda>i. fmul (fmul (w ! i) (fst (A ! i))) (fst (A ! i))) (length A)"

definition ata01_64 :: "(real \<times> real) list \<Rightarrow> real list \<Rightarrow> real" where
  "ata01_64 A w = accum64 (\<lambda>i. fmul (fmul (w ! i) (fst (A ! i))) (snd (A ! i))) (length A)"

definition ata10_64 :: "(real \<times> real) list \<Rightarrow> real list \<Rightarrow> real" where
  "ata10_64 A w = accum64 (\<lambda>i. fmul (fmul (w ! i) (snd (A ! i))) (fst (A ! i))) (length A)"

definition ata11_64 :: "(real \<times> real) list \<Rightarrow> real list \<Rightarrow> real" where
  "ata11_64 A w = accum64 (\<lambda>i. fmul (fmul (w ! i) (snd (A ! i))) (snd (A ! i))) (length A)"

definition atb0_64 :: "(real \<times> real) list \<Rightarrow> real list \<Rightarrow> real list \<Rightarrow> real" where
  "atb0_64 A b w = accum64 (\<lambda>i. fmul (fmul (w ! i) (fst (A ! i))) (b ! i)) (length A)"

definition atb1_64 :: "(real \<times> real) list \<Rightarrow> real list \<Rightarrow> real list \<Rightarrow> real" where
  "atb1_64 A b w = accum64 (\<lambda>i. fmul (fmul (w ! i) (snd (A ! i))) (b ! i)) (length A)"

definition det64 :: "(real \<times> real) list \<Rightarrow> real list \<Rightarrow> real" where
  "det64 A w = fsub (fmul (ata00_64 A w) (ata11_64 A w)) (fmul (ata01_64 A w) (ata10_64 A w))"

text \<open>The literal \<open>1e-10\<close> is the double nearest to \<open>1 / 10 ^ 10\<close>.\<close>

definition solveWeightedLeastSquares64 ::
  "(real \<times> real) list \<Rightarrow> real list \<Rightarrow> real list \<Rightarrow> xy" where
  "solveWeightedLeastSquares64 A b w =
     (let n = length A in
      if \<bar>det64 A w\<bar> < binary64 (1 / 10 ^ 10)
      then
        (let cx = accum64 (\<lambda>i. fst (A ! i)) n;
             cy = accum64 (\<lambda>i. snd (A ! i)) n
         in \<lparr>xc = fdiv cx (real n), yc = fdiv cy (real n)\<rparr>)
      else
        \<lparr>xc = fdiv (fsub (fmul (ata11_64 A w) (atb0_64 A b w))
                         (fmul (ata01_64 A w) (atb1_64 A b w))) (det64 A w),
         yc = fdiv (fsub (fmul (ata00_64 A w) (atb1_64 A b w))
                         (fmul (ata10_64 A w) (atb0_64 A b w))) (det64 A w)\<rparr>)"

section \<open>Kalman smoothing\<close>

text \<open>
  The vector \<open>x\<close> and the matrix \<open>P\<close> are JavaScript arrays, read by index.
  \<open>kalmanPredict\<close> and \<open>kalmanUpdate\<close> return \<open>{ x, P }\<close>;
  \<open>createKalmanState\<close> adds \<open>lastUpdate\<close>, and \<open>applyKalmanFilter\<close> then
  stores the anchor in \<open>refLat\<close> and \<open>refLng\<close>.
\<close>

record kalman_xp =
  kx :: "real list"
  kP :: "real list list"

record kalman_core = kalman_xp +
  lastUpdate :: int

record kalman_state = kalman_core +
  refLat :: real
  refLng :: real

definition processNoise :: real where
  "processNoise = 0.5"

definition measurementNoise :: real where
  "measurementNoise = 2.0"

definition kalman_dt :: real where
  "kalman_dt = 1.0"

text \<open>\<open>Date.now()\<close> is the argument \<open>now\<close>.\<close>

definition createKalmanState :: "int \<Rightarrow> real \<Rightarrow> real \<Rightarrow> kalman_core" where
  "createKalmanState now x y =
     \<lparr>kx = [x, y, 0, 0],
      kP = [[100, 0, 0, 0],
            [0, 100, 0, 0],
            [0, 0, 10, 0],
            [0, 0, 0, 10]],
      lastUpdate = now\<rparr>"

definition kalmanPredict :: "'a kalman_xp_scheme \<Rightarrow> real \<Rightarrow> kalman_xp" where
  "kalmanPredict state dt =
     (let x = kx state; P = kP state; q = processNoise;
          x_pred = [x ! 0 + x ! 2 * dt, x ! 1 + x ! 3 * dt, x ! 2, x ! 3];
          P_pred =
            [[P ! 0 ! 0 + 2 * dt * P ! 0 ! 2 + dt * dt * P ! 2 ! 2 + q,
              P ! 0 ! 1 + dt * P ! 0 ! 3 + dt * P ! 2 ! 1 + dt * dt * P ! 2 ! 3,
              P ! 0 ! 2 + dt * P ! 2 ! 2,
              P ! 0 ! 3 + dt * P ! 2 ! 3],
             [P ! 1 ! 0 + dt * P ! 1 ! 2 + dt * P ! 3 ! 0 + dt * dt * P ! 3 ! 2,
              P ! 1 ! 1 + 2 * dt * P ! 1 ! 3 + dt * dt * P ! 3 ! 3 + q,
              P ! 1 ! 2 + dt * P ! 3 ! 2,
              P ! 1 ! 3 + dt * P ! 3 ! 3],
             [P ! 2 ! 0 + dt * P ! 2 ! 2, P ! 2 ! 1 + dt * P ! 2 ! 3, P ! 2 ! 2 + q, P ! 2 ! 3],
             [P ! 3 ! 0 + dt * P ! 3 ! 2, P ! 3 ! 1 + dt * P ! 3 ! 3, P ! 3 ! 2, P ! 3 ! 3 + q]]
      in \<lparr>kx = x_pred, kP = P_pred\<rparr>)"

definition kalmanUpdate :: "kalman_xp \<Rightarrow> real \<Rightarrow> real \<Rightarrow> real \<Rightarrow> kalman_xp" where
  "kalmanUpdate predicted mx my r =
     (let x = kx predicted; P = kP predicted;
          y = [mx - x ! 0, my - x ! 1];
          S = [[P ! 0 ! 0 + r, P ! 0 ! 1],
               [P ! 1 ! 0, P ! 1 ! 1 + r]];
          d = S ! 0 ! 0 * S ! 1 ! 1 - S ! 0 ! 1 * S ! 1 ! 0
      in if \<bar>d\<bar> < 1 / 10 ^ 10 then predicted
         else
           (let S_inv = [[S ! 1 ! 1 / d, - (S ! 0 ! 1) / d],
                         [- (S ! 1 ! 0) / d, S ! 0 ! 0 / d]];
                K = [[P ! 0 ! 0 * S_inv ! 0 ! 0 + P ! 0 ! 1 * S_inv ! 1 ! 0,
                      P ! 0 ! 0 * S_inv ! 0 ! 1 + P ! 0 ! 1 * S_inv ! 1 ! 1],
                     [P ! 1 ! 0 * S_inv ! 0 ! 0 + P ! 1 ! 1 * S_inv ! 1 ! 0,
                      P ! 1 ! 0 * S_inv ! 0 ! 1 + P ! 1 ! 1 * S_inv ! 1 ! 1],
                     [P ! 2 ! 0 * S_inv ! 0 ! 0 + P ! 2 ! 1 * S_inv ! 1 ! 0,
                      P ! 2 ! 0 * S_inv ! 0 ! 1 + P ! 2 ! 1 * S_inv ! 1 ! 1],
                     [P ! 3 ! 0 * S_inv ! 0 ! 0 + P ! 3 ! 1 * S_inv ! 1 ! 0,
                      P ! 3 ! 0 * S_inv ! 0 ! 1 + P ! 3 ! 1 * S_inv ! 1 ! 1]];
                x_new = [x ! 0 + K ! 0 ! 0 * y ! 0 + K ! 0 ! 1 * y ! 1,
                         x ! 1 + K ! 1 ! 0 * y ! 0 + K ! 1 ! 1 * y ! 1,
                         x ! 2 + K ! 2 ! 0 * y ! 0 + K ! 2 ! 1 * y ! 1,
                         x ! 3 + K ! 3 ! 0 * y ! 0 + K ! 3 ! 1 * y ! 1];
                P_new =
                  [[(1 - K ! 0 ! 0) * P ! 0 ! 0 - K ! 0 ! 1 * P ! 1 ! 0,
                    (1 - K ! 0 ! 0) * P ! 0 ! 1 - K ! 0 ! 1 * P ! 1 ! 1,
                    P ! 0 ! 2 - K ! 0 ! 0 * P ! 0 ! 2 - K ! 0 ! 1 * P ! 1 ! 2,
                    P ! 0 ! 3 - K ! 0 ! 0 * P ! 0 ! 3 - K ! 0 ! 1 * P ! 1 ! 3],
                   [- (K ! 1 ! 0) * P ! 0 ! 0 + (1 - K ! 1 ! 1) * P ! 1 ! 0,
                    - (K ! 1 ! 0) * P ! 0 ! 1 + (1 - K ! 1 ! 1) * P ! 1 ! 1,
                    P ! 1 ! 2 - K ! 1 ! 0 * P ! 0 ! 2 - K ! 1 ! 1 * P ! 1 ! 2,
                    P ! 1 ! 3 - K ! 1 ! 0 * P ! 0 ! 3 - K ! 1 ! 1 * P ! 1 ! 3],
                   [- (K ! 2 ! 0) * P ! 0 ! 0 - K ! 2 ! 1 * P ! 1 ! 0 + P ! 2 ! 0,
                    - (K ! 2 ! 0) * P ! 0 ! 1 - K ! 2 ! 1 * P ! 1 ! 1 + P ! 2 ! 1,
                    P ! 2 ! 2 - K ! 2 ! 0 * P ! 0 ! 2 - K ! 2 ! 1 * P ! 1 ! 2,
                    P ! 2 ! 3 - K ! 2 ! 0 * P ! 0 ! 3 - K ! 2 ! 1 * P ! 1 ! 3],
                   [- (K ! 3 ! 0) * P ! 0 ! 0 - K ! 3 ! 1 * P ! 1 ! 0 + P ! 3 ! 0,
                    - (K ! 3 ! 0) * P ! 0 ! 1 - K ! 3 ! 1 * P ! 1 ! 1 + P ! 3 ! 1,
                    P ! 3 ! 2 - K ! 3 ! 0 * P ! 0 ! 2 - K ! 3 ! 1 * P ! 1 ! 2,
                    P ! 3 ! 3 - K ! 3 ! 0 * P ! 0 ! 3 - K ! 3 ! 1 * P ! 1 ! 3]]
            in \<lparr>kx = x_new, kP = P_new\<rparr>))"

text \<open>
  The map \<open>kalmanStates\<close> is passed in and returned. The first call for a device
  stores a state and returns the measurement; a later call predicts, updates, stores
  and returns the smoothed coordinate.
\<close>

definition applyKalmanFilter ::
  "int \<Rightarrow> string \<Rightarrow> real \<Rightarrow> real \<Rightarrow> real \<Rightarrow> (string \<rightharpoonup> kalman_state)
     \<Rightarrow> gps \<times> (string \<rightharpoonup> kalman_state)" where
  "applyKalmanFilter now deviceId measuredLat measuredLng qual states =
     (let refLa = measuredLat;
          refLo = measuredLng;
          measured = gpsToMeters measuredLat measuredLng refLa refLo
      in case states deviceId of
           None \<Rightarrow>
             (let state = kalman_core.extend (createKalmanState now (xc measured) (yc measured))
                            (kalman_state.fields refLa refLo)
              in (\<lparr>lat = measuredLat, lng = measuredLng\<rparr>, states(deviceId \<mapsto> state)))
         | Some state \<Rightarrow>
             (let measInState = gpsToMeters measuredLat measuredLng (refLat state) (refLng state);
                  dt = kalman_dt;
                  mNoise = measurementNoise * (1 + qual / 10);
                  predicted = kalmanPredict state dt;
                  updated = kalmanUpdate predicted (xc measInState) (yc measInState) mNoise;
                  state' = state\<lparr>kx := kx updated, kP := kP updated, lastUpdate := now\<rparr>;
                  smoothed = metersToGps (kx updated ! 0) (kx updated ! 1)
                               (refLat state') (refLng state')
              in (\<lparr>lat = lat smoothed, lng = lng smoothed\<rparr>, states(deviceId \<mapsto> state'))))"

section \<open>Session state\<close>

text \<open>
  The module-level variables of the lateration module. The cache stores what
  \<open>trilaterate\<close> returned, \<open>null\<close> included, under the key
  \<open>timestamp:macHashed\<close>.
\<close>

record lat_state =
  resultCache :: "string \<rightharpoonup> estimate option"
  kalmanStates :: "string \<rightharpoonup> kalman_state"
  kalmanEnabled :: bool

definition getCacheKey :: "string \<Rightarrow> string \<Rightarrow> string" where
  "getCacheKey timestamp macHashed = timestamp @ '':'' @ macHashed"

definition getCachedOrCompute ::
  "string \<Rightarrow> string \<Rightarrow> observation list \<Rightarrow> lat_state \<Rightarrow> estimate option \<times> lat_state" where
  "getCachedOrCompute timestamp macHashed obs st =
     (let key = getCacheKey timestamp macHashed
      in case resultCache st key of
           Some cached \<Rightarrow> (cached, st)
         | None \<Rightarrow>
             (let result = trilaterate obs
              in (result, st\<lparr>resultCache := (resultCache st)(key \<mapsto> result)\<rparr>)))"

definition clearCache :: "lat_state \<Rightarrow> lat_state" where
  "clearCache st = st\<lparr>resultCache := Map.empty, kalmanStates := Map.empty\<rparr>"

definition resetKalmanFilters :: "lat_state \<Rightarrow> lat_state" where
  "resetKalmanFilters st = st\<lparr>kalmanStates := Map.empty\<rparr>"

definition setKalmanEnabled :: "bool \<Rightarrow> lat_state \<Rightarrow> lat_state" where
  "setKalmanEnabled enabled st =
     (let st1 = st\<lparr>kalmanEnabled := enabled\<rparr>
      in if enabled then resetKalmanFilters st1 else st1)"

definition isKalmanEnabled :: "lat_state \<Rightarrow> bool" where
  "isKalmanEnabled st = kalmanEnabled st"

section \<open>Time-window aggregation\<close>

text \<open>The entries the data handler stores, as \<open>processData\<close> leaves them.\<close>

record device =
  dev_mac_hashed :: string
  dev_mac :: "string option"
  dev_rssi :: real
  dev_distance :: real

record entry =
  device_key :: string
  entry_gps :: "real \<times> real"
  entry_timestamp :: string
  devices :: "device list"

record dh_state =
  TIME_WINDOW_MS :: int
  timestamps :: "string list"
  dataByTimestamp :: "string \<rightharpoonup> entry list"

text \<open>
  The returned \<open>Map\<close> keeps insertion order, which \<open>forEach\<close> follows: it is an
  association list with one pair per device.
\<close>

type_synonym device_map = "(string \<times> observation list) list"

definition readingKey :: "string \<Rightarrow> string \<Rightarrow> string" where
  "readingKey sensorKey macHashed = sensorKey @ ''_'' @ macHashed"

definition pushReading :: "string \<Rightarrow> observation \<Rightarrow> device_map \<Rightarrow> device_map" where
  "pushReading macHashed ob dm =
     (if macHashed \<in> fst ` set dm
      then map (\<lambda>(k, v). if k = macHashed then (k, v @ [ob]) else (k, v)) dm
      else dm @ [(macHashed, [ob])])"

text \<open>The body of \<open>entry.devices.forEach\<close>, on the pair of \<open>processedReadings\<close> and \<open>deviceMap\<close>.\<close>

definition addReading ::
  "string \<Rightarrow> int \<Rightarrow> entry \<Rightarrow> string set \<times> device_map \<Rightarrow> device \<Rightarrow> string set \<times> device_map" where
  "addReading ts offset e acc dv =
     (case acc of
        (processedReadings, deviceMap) \<Rightarrow>
          (let key = readingKey (device_key e) (dev_mac_hashed dv)
           in if key \<notin> processedReadings
              then (insert key processedReadings,
                    pushReading (dev_mac_hashed dv)
                      \<lparr>sensor_id = device_key e,
                       distance = dev_distance dv,
                       rssi = Some (dev_rssi dv),
                       sensor_lat = fst (entry_gps e),
                       sensor_lng = snd (entry_gps e),
                       mac_hashed = None,
                       original_timestamp = Some ts,
                       time_offset_ms = Some offset\<rparr>
                      deviceMap)
              else (processedReadings, deviceMap)))"

definition addEntry ::
  "string \<Rightarrow> int \<Rightarrow> string set \<times> device_map \<Rightarrow> entry \<Rightarrow> string set \<times> device_map" where
  "addEntry ts offset acc e = foldl (addReading ts offset e) acc (devices e)"

text \<open>
  \<open>new Date(ts).getTime()\<close> is the argument \<open>getTime\<close>; \<open>None\<close> is the \<open>NaN\<close> of
  a text that is no date, for which every comparison is false.
\<close>

definition addTimestamp ::
  "(string \<Rightarrow> int option) \<Rightarrow> dh_state \<Rightarrow> int option \<Rightarrow> string set \<times> device_map \<Rightarrow> string
     \<Rightarrow> string set \<times> device_map" where
  "addTimestamp getTime st centerTime acc ts =
     (case (getTime ts, centerTime) of
        (Some tsTime, Some center) \<Rightarrow>
          (let windowStart = center - TIME_WINDOW_MS st;
               windowEnd = center + TIME_WINDOW_MS st
           in if tsTime \<ge> windowStart \<and> tsTime \<le> windowEnd
              then
                (let entries = (case dataByTimestamp st ts of None \<Rightarrow> [] | Some es \<Rightarrow> es)
                 in foldl (addEntry ts (tsTime - center)) acc entries)
              else acc)
      | _ \<Rightarrow> acc)"

definition getDevicesInTimeWindow ::
  "(string \<Rightarrow> int option) \<Rightarrow> dh_state \<Rightarrow> string \<Rightarrow> device_map" where
  "getDevicesInTimeWindow getTime st timestamp =
     snd (foldl (addTimestamp getTime st (getTime timestamp)) ({}, []) (timestamps st))"

definition setTimeWindow :: "int \<Rightarrow> dh_state \<Rightarrow> dh_state" where
  "setTimeWindow windowMs st = st\<lparr>TIME_WINDOW_MS := max 0 windowMs\<rparr>"

section \<open>The position list\<close>

text \<open>
  A JavaScript number as \<open>isNaN\<close> sees it: a real value, one of the two infinities,
  or \<open>NaN\<close>.
\<close>

datatype jsnum = Number real | PosInfinity | NegInfinity | NaN

definition isNaN :: "jsnum \<Rightarrow> bool" where
  "isNaN v = (v = NaN)"

text \<open>
  What \<open>trilaterate\<close> returns and what \<open>computeAllPositions\<close> pushes, with number
  fields that can hold the special values: \<open>{macHashed, ...result, lat, lng, rawLat,
  rawLng, isSmoothed}\<close>.
\<close>

record estimate64 =
  lat64 :: jsnum
  lng64 :: jsnum
  qualityLevel64 :: quality
  sensorCount64 :: nat
  observations64 :: "observation list"
  confidence64 :: jsnum
  variance64 :: jsnum

record position = estimate64 +
  macHashed :: string
  rawLat :: jsnum
  rawLng :: jsnum
  isSmoothed :: bool

text \<open>\<open>result.variance || 5\<close>: the numbers \<open>0\<close> and \<open>NaN\<close> are falsy.\<close>

definition varianceOr5 :: "jsnum \<Rightarrow> jsnum" where
  "varianceOr5 v = (if v = Number 0 \<or> v = NaN then Number 5 else v)"

text \<open>
  \<open>getCachedOrCompute\<close> and the body of \<open>devices.forEach\<close>. \<open>solve\<close> is
  \<open>trilaterate\<close> as it runs on doubles and \<open>smooth\<close> is \<open>applyKalmanFilter\<close> on the
  smoother's states \<open>ks\<close>; the guards read only the fields \<open>lat\<close> and \<open>lng\<close> of what
  they return. The state threaded through the loop is the result list, the cache and the
  smoother's states.
\<close>

definition getCachedOrCompute64 ::
  "(observation list \<Rightarrow> estimate64 option) \<Rightarrow> string \<Rightarrow> string \<Rightarrow> observation list
     \<Rightarrow> (string \<rightharpoonup> estimate64 option) \<Rightarrow> estimate64 option \<times> (string \<rightharpoonup> estimate64 option)" where
  "getCachedOrCompute64 solve timestamp mac obs cache =
     (let key = getCacheKey timestamp mac
      in case cache key of
           Some cached \<Rightarrow> (cached, cache)
         | None \<Rightarrow> (let result = solve obs in (result, cache(key \<mapsto> result))))"

definition positionStep ::
  "(observation list \<Rightarrow> estimate64 option)
     \<Rightarrow> (string \<Rightarrow> jsnum \<Rightarrow> jsnum \<Rightarrow> jsnum \<Rightarrow> 'k \<Rightarrow> (jsnum \<times> jsnum) \<times> 'k)
     \<Rightarrow> bool \<Rightarrow> string
     \<Rightarrow> position list \<times> (string \<rightharpoonup> estimate64 option) \<times> 'k
     \<Rightarrow> string \<times> observation list
     \<Rightarrow> position list \<times> (string \<rightharpoonup> estimate64 option) \<times> 'k" where
  "positionStep solve smooth enabled timestamp acc dv =
     (case acc of
        (results, cache, ks) \<Rightarrow>
          (case dv of
             (mac, obs) \<Rightarrow>
               (case getCachedOrCompute64 solve timestamp mac obs cache of
                  (None, cache1) \<Rightarrow> (results, cache1, ks)
                | (Some result, cache1) \<Rightarrow>
                    if \<not> isNaN (lat64 result) \<and> \<not> isNaN (lng64 result)
                    then
                      (case (if enabled
                             then (case smooth mac (lat64 result) (lng64 result)
                                          (varianceOr5 (variance64 result)) ks of
                                     ((sLat, sLng), ks1) \<Rightarrow>
                                       if \<not> isNaN sLat \<and> \<not> isNaN sLng
                                       then (sLat, sLng, True, ks1)
                                       else (lat64 result, lng64 result, False, ks1))
                             else (lat64 result, lng64 result, False, ks)) of
                         (finalLat, finalLng, smoothed, ks2) \<Rightarrow>
                           (results @
                              [estimate64.extend (result\<lparr>lat64 := finalLat, lng64 := finalLng\<rparr>)
                                 (position.fields mac (lat64 result) (lng64 result) smoothed)],
                            cache1, ks2))
                    else (results, cache1, ks))))"

definition computeAllPositions ::
  "(string \<Rightarrow> int option) \<Rightarrow> dh_state
     \<Rightarrow> (observation list \<Rightarrow> estimate64 option)
     \<Rightarrow> (string \<Rightarrow> jsnum \<Rightarrow> jsnum \<Rightarrow> jsnum \<Rightarrow> 'k \<Rightarrow> (jsnum \<times> jsnum) \<times> 'k)
     \<Rightarrow> bool \<Rightarrow> string
     \<Rightarrow> (string \<rightharpoonup> estimate64 option) \<times> 'k
     \<Rightarrow> position list \<times> (string \<rightharpoonup> estimate64 option) \<times> 'k" where
  "computeAllPositions getTime dh solve smooth enabled timestamp st =
     foldl (positionStep solve smooth enabled timestamp) ([], st)
       (getDevicesInTimeWindow getTime dh timestamp)"

section \<open>Reference formulas and runs\<close>

text \<open>
  The formulas of the specification, written once so that the theorems can compare
  the code with them: the clamped interpolation parameter of the two-sensor case and
  the weight of one linearized equation.
\<close>

definition twoSensorT :: "real \<Rightarrow> real \<Rightarrow> real \<Rightarrow> real" where
  "twoSensorT D d1 d2 = max (- 0.5) (min 1.5 ((D\<^sup>2 + d1\<^sup>2 - d2\<^sup>2) / (2 * D\<^sup>2)))"


text \<open>
  A run of the smoother: the calls \<open>applyKalmanFilter(deviceId, lat, lng, quality)\<close>
  made one after the other, each at its own clock value, on the map of states.
\<close>

definition smootherRun ::
  "(int \<times> string \<times> real \<times> real \<times> real) list \<Rightarrow> (string \<rightharpoonup> kalman_state)
     \<Rightarrow> (string \<rightharpoonup> kalman_state)" where
  "smootherRun calls states =
     foldl (\<lambda>ks (now, deviceId, la, lo, qual). snd (applyKalmanFilter now deviceId la lo qual ks))
       states calls"

text \<open>
  What the aggregator promises of a reading, and when a stored timestamp lies in the
  window around the target.
\<close>

definition allReadings :: "(observation \<Rightarrow> bool) \<Rightarrow> device_map \<Rightarrow> bool" where
  "allReadings P dm = (\<forall>kv \<in> set dm. \<forall>ob \<in> set (snd kv). P ob)"

definition windowReading :: "int \<Rightarrow> observation \<Rightarrow> bool" where
  "windowReading W ob =
     (mac_hashed ob = None \<and>
      (case time_offset_ms ob of None \<Rightarrow> False | Some off \<Rightarrow> \<bar>off\<bar> \<le> W))"

definition inWindow :: "(string \<Rightarrow> int option) \<Rightarrow> dh_state \<Rightarrow> string \<Rightarrow> string \<Rightarrow> bool" where
  "inWindow getTime st timestamp ts =
     (case (getTime ts, getTime timestamp) of
        (Some t, Some center) \<Rightarrow> \<bar>t - center\<bar> \<le> TIME_WINDOW_MS st
      | _ \<Rightarrow> False)"

text \<open>
  A finite coordinate, and what the guards of \<open>computeAllPositions\<close> establish of a
  returned position.
\<close>

definition isFinite :: "jsnum \<Rightarrow> bool" where
  "isFinite v = (case v of Number u \<Rightarrow> True | PosInfinity \<Rightarrow> False | NegInfinity \<Rightarrow> False | NaN \<Rightarrow> False)"

definition kept :: "position \<Rightarrow> bool" where
  "kept p = (\<not> isNaN (lat64 p) \<and> \<not> isNaN (lng64 p) \<and> \<not> isNaN (rawLat p) \<and> \<not> isNaN (rawLng p))"

text \<open>
  The results \<open>getCachedOrCompute\<close> returns for the devices of a query, one after the
  other, each call seeing the cache the previous one left.
\<close>

fun computedResults ::
  "(observation list \<Rightarrow> estimate64 option) \<Rightarrow> string \<Rightarrow> (string \<times> observation list) list
     \<Rightarrow> (string \<rightharpoonup> estimate64 option) \<Rightarrow> (string \<times> estimate64 option) list" where
  "computedResults solve timestamp [] cache = []"
| "computedResults solve timestamp (dv # devs) cache =
     (case getCachedOrCompute64 solve timestamp (fst dv) (snd dv) cache of
        (result, cache1) \<Rightarrow> (fst dv, result) # computedResults solve timestamp devs cache1)"

text \<open>The test \<open>result && !isNaN(result.lat) && !isNaN(result.lng)\<close>.\<close>

definition passesGuard :: "estimate64 option \<Rightarrow> bool" where
  "passesGuard result =
     (case result of None \<Rightarrow> False | Some r \<Rightarrow> \<not> isNaN (lat64 r) \<and> \<not> isNaN (lng64 r))"

text \<open>
  The device and raw coordinates of a returned position, and the device and coordinates
  of a computed result, for comparing the two lists.
\<close>

definition rawOf :: "position \<Rightarrow> string \<times> (jsnum \<times> jsnum) option" where
  "rawOf p = (macHashed p, Some (rawLat p, rawLng p))"

definition computedOf :: "string \<times> estimate64 option \<Rightarrow> string \<times> (jsnum \<times> jsnum) option" where
  "computedOf d = (fst d, map_option (\<lambda>r. (lat64 r, lng64 r)) (snd d))"

section \<open>Concrete inputs\<close>

text \<open>
  The observation object built for live data carries the five fields
  \<open>sensor_id\<close>, \<open>distance\<close>, \<open>rssi\<close>, \<open>sensor_lat\<close> and \<open>sensor_lng\<close>
  and nothing else.
\<close>

definition realtimeObservation :: "string \<Rightarrow> real \<Rightarrow> real option \<Rightarrow> real \<Rightarrow> real \<Rightarrow> observation" where
  "realtimeObservation sid d r la lo =
     \<lparr>sensor_id = sid, distance = d, rssi = r, sensor_lat = la, sensor_lng = lo,
      mac_hashed = None, original_timestamp = None, time_offset_ms = None\<rparr>"

text \<open>
  Two sensors one degree of longitude apart on the equator with circles that do not meet
  (and a third reading out of range), four readings of which one has distance \<open>0\<close>, and
  two sensors at the same place.
\<close>

definition apartObs :: "observation list" where
  "apartObs =
     [realtimeObservation ''A'' 5 (Some (- 60)) 0 0,
      realtimeObservation ''B'' 17 (Some (- 75)) 0 1,
      realtimeObservation ''C'' 250 None 3 3]"

definition fourObs :: "observation list" where
  "fourObs =
     [realtimeObservation ''A'' 5 None 0 0,
      realtimeObservation ''B'' 0 None 9 9,
      realtimeObservation ''C'' 5 None 1 0,
      realtimeObservation ''D'' 5 None 2 1]"

definition coincidentObs :: "observation list" where
  "coincidentObs =
     [realtimeObservation ''A'' 5 None 50 6,
      realtimeObservation ''B'' 17 None 50 6]"

text \<open>
  Points given directly in local meters: a right triangle, three points on a line,
  and the triangle again with a signal strength of exactly \<open>0\<close>.
\<close>

definition localPoint :: "string \<Rightarrow> real \<Rightarrow> real option \<Rightarrow> real \<Rightarrow> real \<Rightarrow> point" where
  "localPoint sid d r x y =
     \<lparr>sensor_id = sid, distance = d, rssi = r, sensor_lat = 0, sensor_lng = 0,
      mac_hashed = None, original_timestamp = None, time_offset_ms = None,
      pos = \<lparr>xc = x, yc = y\<rparr>\<rparr>"




text \<open>
  Three sensors on one line in local meters, at distances \<open>2\<close>, \<open>2\<close> and \<open>6\<close> and
  without signal strength, and the system \<open>estimateMultiSensorPosition\<close> builds from
  them: the entries of \<open>A\<close> and \<open>b\<close> are integers, which doubles hold exactly, and
  the weights are the doubles next to \<open>1 / 3\<close> and \<open>1 / 7\<close>.
\<close>

definition singularPts :: "point list" where
  "singularPts =
     [localPoint ''A'' 2 None 0 0,
      localPoint ''B'' 2 None 30 70,
      localPoint ''C'' 6 None 90 210]"

definition singularA :: "(real \<times> real) list" where
  "singularA = [(60, 140), (180, 420)]"

definition singularB :: "real list" where
  "singularB = [5800, 52168]"

definition singularW :: "real list" where
  "singularW = [rowW64 2 1, rowW64 6 1]"

text \<open>
  Stored data: the clock values of two timestamps, a store in which one sensor sees
  device \<open>a\<close>, the reading the aggregator builds from it, and a store whose two
  sensor and device pairs are spelled with underscores.
\<close>

definition fixtureTime :: "string \<Rightarrow> int option" where
  "fixtureTime ts =
     (if ts = ''2024-01-01T00:00:00Z'' then Some 1704067200000
      else if ts = ''2024-01-01T00:00:12Z'' then Some 1704067212000
      else None)"

definition singleStore :: dh_state where
  "singleStore =
     \<lparr>TIME_WINDOW_MS = 15000,
      timestamps = [''2024-01-01T00:00:00Z''],
      dataByTimestamp =
        [''2024-01-01T00:00:00Z'' \<mapsto>
           [\<lparr>device_key = ''S1'', entry_gps = (50, 6),
             entry_timestamp = ''2024-01-01T00:00:00Z'',
             devices = [\<lparr>dev_mac_hashed = ''a'', dev_mac = None,
                          dev_rssi = - 70, dev_distance = 5\<rparr>]\<rparr>]]\<rparr>"

definition singleReading :: observation where
  "singleReading =
     \<lparr>sensor_id = ''S1'', distance = 5, rssi = Some (- 70), sensor_lat = 50, sensor_lng = 6,
      mac_hashed = None, original_timestamp = Some ''2024-01-01T00:00:00Z'',
      time_offset_ms = Some 0\<rparr>"

definition collidingStore :: dh_state where
  "collidingStore =
     \<lparr>TIME_WINDOW_MS = 15000,
      timestamps = [''2024-01-01T00:00:00Z''],
      dataByTimestamp =
        [''2024-01-01T00:00:00Z'' \<mapsto>
           [\<lparr>device_key = ''s_1'', entry_gps = (50, 6),
             entry_timestamp = ''2024-01-01T00:00:00Z'',
             devices = [\<lparr>dev_mac_hashed = ''x'', dev_mac = None,
                          dev_rssi = - 70, dev_distance = 3\<rparr>]\<rparr>,
            \<lparr>device_key = ''s'', entry_gps = (50, 7),
             entry_timestamp = ''2024-01-01T00:00:00Z'',
             devices = [\<lparr>dev_mac_hashed = ''1_x'', dev_mac = None,
                          dev_rssi = - 60, dev_distance = 4\<rparr>]\<rparr>]]\<rparr>"

text \<open>
  Device \<open>D\<close> seen by sensor \<open>A\<close> at one instant and by sensor \<open>B\<close> twelve seconds
  later, with the window as a parameter.
\<close>

definition asyncStore :: "int \<Rightarrow> dh_state" where
  "asyncStore W =
     \<lparr>TIME_WINDOW_MS = W,
      timestamps = [''2024-01-01T00:00:00Z'', ''2024-01-01T00:00:12Z''],
      dataByTimestamp =
        [''2024-01-01T00:00:00Z'' \<mapsto>
           [\<lparr>device_key = ''A'', entry_gps = (50, 6),
             entry_timestamp = ''2024-01-01T00:00:00Z'',
             devices = [\<lparr>dev_mac_hashed = ''D'', dev_mac = None,
                          dev_rssi = - 70, dev_distance = 5\<rparr>]\<rparr>],
         ''2024-01-01T00:00:12Z'' \<mapsto>
           [\<lparr>device_key = ''B'', entry_gps = (50, 7),
             entry_timestamp = ''2024-01-01T00:00:12Z'',
             devices = [\<lparr>dev_mac_hashed = ''D'', dev_mac = None,
                          dev_rssi = - 60, dev_distance = 4\<rparr>]\<rparr>]]\<rparr>"

text \<open>
  The timestamp of \<open>singleStore\<close>, a solver that returns given coordinates, the
  smoother on its first call for a device, which returns the measurement, and a solver
  that returns \<open>null\<close>.
\<close>

definition T0 :: string where
  "T0 = ''2024-01-01T00:00:00Z''"

definition solved64 :: "jsnum \<Rightarrow> jsnum \<Rightarrow> observation list \<Rightarrow> estimate64 option" where
  "solved64 la lo obs =
     Some \<lparr>lat64 = la, lng64 = lo, qualityLevel64 = Low, sensorCount64 = 1,
           observations64 = obs, confidence64 = Number 0.2, variance64 = Number 5\<rparr>"

definition firstCallSmooth :: "string \<Rightarrow> jsnum \<Rightarrow> jsnum \<Rightarrow> jsnum \<Rightarrow> unit \<Rightarrow> (jsnum \<times> jsnum) \<times> unit" where
  "firstCallSmooth mac la lo q ks = ((la, lo), ks)"

definition noEstimate :: "observation list \<Rightarrow> estimate64 option" where
  "noEstimate obs = None"

section \<open>Projection round trip\<close>

lemma gpsToMeters_self: "gpsToMeters la lo la lo = \<lparr>xc = 0, yc = 0\<rparr>"
  by (simp add: gpsToMeters_def)

text \<open>
  C9. Converting a coordinate to local meters and back through the same reference
  point gives the coordinate back, whenever the cosine of the reference latitude is
  not zero.
\<close>

theorem gps_round_trip:
  assumes "cos (refLa * pi / 180) \<noteq> 0"
  shows "metersToGps (xc (gpsToMeters la lo refLa refLo)) (yc (gpsToMeters la lo refLa refLo))
           refLa refLo = \<lparr>lat = la, lng = lo\<rparr>"
  using assms by (simp add: metersToGps_def gpsToMeters_def earthRadius_def Let_def)

theorem gps_round_trip_witness:
  "cos (0 * pi / 180) \<noteq> (0::real) \<and>
   metersToGps (xc (gpsToMeters 50 6 0 0)) (yc (gpsToMeters 50 6 0 0)) 0 0 = \<lparr>lat = 50, lng = 6\<rparr>"
  using gps_round_trip [of 0 50 6 0] by simp

section \<open>Filtering and strategy selection\<close>

lemma trilaterate_one:
  assumes "validObs obs = [s]"
  shows "trilaterate obs =
     Some \<lparr>lat = sensor_lat s + (distance s * cos (bearing (mac_hashed s)) / earthRadius) * (180 / pi),
           lng = sensor_lng s +
                 (distance s * sin (bearing (mac_hashed s)) /
                    (earthRadius * cos (sensor_lat s * pi / 180))) * (180 / pi),
           qualityLevel = Low, sensorCount = 1, observations = [s],
           confidence = 0.2,
           variance = varianceOr (Some (distance s)) (distance s)\<rparr>"
  using assms
  by (simp add: trilaterate_def Let_def getQualityLevel_def getConfidenceFromSensorCount_def)

lemma trilaterate_two:
  assumes "length (validObs obs) = 2"
  shows "trilaterate obs =
     (let vs = validObs obs; pts = projectPoints vs; e = estimateTwoSensorPosition pts;
          g = metersToGps (xc e) (yc e) (refLatOf vs) (refLngOf vs)
      in Some \<lparr>lat = lat g, lng = lng g,
           qualityLevel = Medium, sensorCount = 2, observations = vs,
           confidence = 0.5,
           variance = varianceOr (est_variance e) (calculateResidual e pts)\<rparr>)"
proof -
  from assms have "validObs obs \<noteq> []" by auto
  with assms show ?thesis
    by (simp add: trilaterate_def Let_def getQualityLevel_def getConfidenceFromSensorCount_def)
qed

lemma trilaterate_multi:
  assumes "length (validObs obs) \<ge> 3"
  shows "trilaterate obs =
     (let vs = validObs obs; pts = projectPoints vs; e = estimateMultiSensorPosition pts;
          g = metersToGps (xc e) (yc e) (refLatOf vs) (refLngOf vs)
      in Some \<lparr>lat = lat g, lng = lng g,
           qualityLevel = High, sensorCount = length vs, observations = vs,
           confidence = 1,
           variance = varianceOr (est_variance e) (calculateResidual e pts)\<rparr>)"
proof -
  from assms have "validObs obs \<noteq> []" by auto
  with assms show ?thesis
    by (simp add: trilaterate_def Let_def getQualityLevel_def getConfidenceFromSensorCount_def)
qed

lemma validObs_idem: "validObs (validObs obs) = validObs obs"
  by (simp add: validObs_def)

lemma trilaterate_of_valid: "trilaterate obs = trilaterate (validObs obs)"
  by (simp add: trilaterate_def validObs_idem)

text \<open>
  C8. The solver keeps exactly the observations whose distance is neither \<open>\<le> 0\<close> nor
  \<open>\<ge> 200\<close>, and everything it does afterwards reads the kept list only: the result
  on a list is the result on its kept part. It returns no estimate exactly when nothing
  is kept; otherwise it returns an estimate whose observations are the kept ones, whose
  sensor count, quality level and confidence are those of the number kept, and whose
  position comes from the one-sensor, two-sensor or multi-sensor strategy according to
  that number.
\<close>

theorem trilaterate_filter:
  "validObs obs = filter (\<lambda>ob. \<not> (distance ob \<le> 0 \<or> distance ob \<ge> 200)) obs \<and>
   (trilaterate obs = None) = (validObs obs = []) \<and>
   trilaterate obs = trilaterate (validObs obs) \<and>
   map_option observations (trilaterate obs) =
     (if validObs obs = [] then None else Some (validObs obs)) \<and>
   map_option sensorCount (trilaterate obs) =
     (if validObs obs = [] then None else Some (length (validObs obs))) \<and>
   map_option qualityLevel (trilaterate obs) =
     (if validObs obs = [] then None else Some (getQualityLevel (length (validObs obs)))) \<and>
   map_option confidence (trilaterate obs) =
     (if validObs obs = [] then None
      else Some (getConfidenceFromSensorCount (length (validObs obs)))) \<and>
   (\<forall>s. validObs obs = [s] \<longrightarrow>
      trilaterate obs =
        Some \<lparr>lat = sensor_lat s +
                     (distance s * cos (bearing (mac_hashed s)) / earthRadius) * (180 / pi),
              lng = sensor_lng s +
                     (distance s * sin (bearing (mac_hashed s)) /
                        (earthRadius * cos (sensor_lat s * pi / 180))) * (180 / pi),
              qualityLevel = Low, sensorCount = 1, observations = [s],
              confidence = 0.2,
              variance = varianceOr (Some (distance s)) (distance s)\<rparr>) \<and>
   (length (validObs obs) = 2 \<longrightarrow>
      trilaterate obs =
        (let vs = validObs obs; pts = projectPoints vs; e = estimateTwoSensorPosition pts;
             g = metersToGps (xc e) (yc e) (refLatOf vs) (refLngOf vs)
         in Some \<lparr>lat = lat g, lng = lng g,
                  qualityLevel = Medium, sensorCount = 2, observations = vs,
                  confidence = 0.5,
                  variance = varianceOr (est_variance e) (calculateResidual e pts)\<rparr>)) \<and>
   (length (validObs obs) \<ge> 3 \<longrightarrow>
      trilaterate obs =
        (let vs = validObs obs; pts = projectPoints vs; e = estimateMultiSensorPosition pts;
             g = metersToGps (xc e) (yc e) (refLatOf vs) (refLngOf vs)
         in Some \<lparr>lat = lat g, lng = lng g,
                  qualityLevel = High, sensorCount = length vs, observations = vs,
                  confidence = 1,
                  variance = varianceOr (est_variance e) (calculateResidual e pts)\<rparr>))"
proof -
  have f: "validObs obs = filter (\<lambda>ob. \<not> (distance ob \<le> 0 \<or> distance ob \<ge> 200)) obs"
    by (simp add: validObs_def not_le)
  have n: "(trilaterate obs = None) = (validObs obs = [])"
    unfolding trilaterate_def Let_def
    by (cases "validObs obs") (simp_all split: prod.splits)
  have o: "map_option observations (trilaterate obs) =
     (if validObs obs = [] then None else Some (validObs obs))"
    unfolding trilaterate_def Let_def
    by (cases "validObs obs") (simp_all split: prod.splits)
  have c: "map_option sensorCount (trilaterate obs) =
     (if validObs obs = [] then None else Some (length (validObs obs)))"
    unfolding trilaterate_def Let_def
    by (cases "validObs obs") (simp_all split: prod.splits)
  have q: "map_option qualityLevel (trilaterate obs) =
     (if validObs obs = [] then None else Some (getQualityLevel (length (validObs obs))))"
    unfolding trilaterate_def Let_def
    by (cases "validObs obs") (simp_all split: prod.splits)
  have k: "map_option confidence (trilaterate obs) =
     (if validObs obs = [] then None
      else Some (getConfidenceFromSensorCount (length (validObs obs))))"
    unfolding trilaterate_def Let_def
    by (cases "validObs obs") (simp_all split: prod.splits)
  have s1: "\<forall>s. validObs obs = [s] \<longrightarrow>
      trilaterate obs =
        Some \<lparr>lat = sensor_lat s +
                     (distance s * cos (bearing (mac_hashed s)) / earthRadius) * (180 / pi),
              lng = sensor_lng s +
                     (distance s * sin (bearing (mac_hashed s)) /
                        (earthRadius * cos (sensor_lat s * pi / 180))) * (180 / pi),
              qualityLevel = Low, sensorCount = 1, observations = [s],
              confidence = 0.2,
              variance = varianceOr (Some (distance s)) (distance s)\<rparr>"
    by (intro allI impI) (rule trilaterate_one)
  have s2: "length (validObs obs) = 2 \<longrightarrow>
      trilaterate obs =
        (let vs = validObs obs; pts = projectPoints vs; e = estimateTwoSensorPosition pts;
             g = metersToGps (xc e) (yc e) (refLatOf vs) (refLngOf vs)
         in Some \<lparr>lat = lat g, lng = lng g,
                  qualityLevel = Medium, sensorCount = 2, observations = vs,
                  confidence = 0.5,
                  variance = varianceOr (est_variance e) (calculateResidual e pts)\<rparr>)"
    by (rule impI) (rule trilaterate_two)
  have s3: "length (validObs obs) \<ge> 3 \<longrightarrow>
      trilaterate obs =
        (let vs = validObs obs; pts = projectPoints vs; e = estimateMultiSensorPosition pts;
             g = metersToGps (xc e) (yc e) (refLatOf vs) (refLngOf vs)
         in Some \<lparr>lat = lat g, lng = lng g,
                  qualityLevel = High, sensorCount = length vs, observations = vs,
                  confidence = 1,
                  variance = varianceOr (est_variance e) (calculateResidual e pts)\<rparr>)"
    by (rule impI) (rule trilaterate_multi)
  show ?thesis by (intro conjI) (fact f n trilaterate_of_valid o c q k s1 s2 s3)+
qed

theorem trilaterate_filter_witness:
  "validObs [singleReading] = [singleReading] \<and>
   map_option qualityLevel (trilaterate [singleReading]) = Some Low \<and>
   length apartObs = 3 \<and> length (validObs apartObs) = 2 \<and>
   map_option qualityLevel (trilaterate apartObs) = Some Medium \<and>
   map_option sensorCount (trilaterate apartObs) = Some 2 \<and>
   length fourObs = 4 \<and> 3 \<le> length (validObs fourObs) \<and>
   map_option qualityLevel (trilaterate fourObs) = Some High \<and>
   map_option sensorCount (trilaterate fourObs) = Some 3"
proof -
  have v1: "validObs [singleReading] = [singleReading]"
    by (simp add: validObs_def singleReading_def)
  have la: "length apartObs = 3" by (simp add: apartObs_def)
  have v2: "length (validObs apartObs) = 2" by (simp add: validObs_def apartObs_def realtimeObservation_def)
  have lf: "length fourObs = 4" by (simp add: fourObs_def)
  have v3: "length (validObs fourObs) = 3"
    by (simp add: validObs_def fourObs_def realtimeObservation_def)
  then have v3': "3 \<le> length (validObs fourObs)" by simp
  note T1 = trilaterate_filter [of "[singleReading]"]
  note T2 = trilaterate_filter [of apartObs]
  note T3 = trilaterate_filter [of fourObs]
  note one = T1 [THEN conjunct2, THEN conjunct2, THEN conjunct2, THEN conjunct2, THEN conjunct2,
      THEN conjunct2, THEN conjunct2, THEN conjunct1, THEN spec, THEN mp, OF v1]
  note two = T2 [THEN conjunct2, THEN conjunct2, THEN conjunct2, THEN conjunct2, THEN conjunct2,
      THEN conjunct2, THEN conjunct2, THEN conjunct2, THEN conjunct1, THEN mp, OF v2]
  note multi = T3 [THEN conjunct2, THEN conjunct2, THEN conjunct2, THEN conjunct2, THEN conjunct2,
      THEN conjunct2, THEN conjunct2, THEN conjunct2, THEN conjunct2, THEN mp, OF v3']
  have q1: "map_option qualityLevel (trilaterate [singleReading]) = Some Low"
    unfolding one by simp
  have q2: "map_option qualityLevel (trilaterate apartObs) = Some Medium"
    unfolding two Let_def by simp
  have c2: "map_option sensorCount (trilaterate apartObs) = Some 2"
    unfolding two Let_def by simp
  have q3: "map_option qualityLevel (trilaterate fourObs) = Some High"
    unfolding multi Let_def by simp
  have c3: "map_option sensorCount (trilaterate fourObs) = Some 3"
    unfolding multi Let_def by (simp add: v3)
  show ?thesis by (intro conjI) (fact v1 q1 la v2 q2 c2 lf v3' q3 c3)+
qed

section \<open>Time-window aggregation: what every reading satisfies\<close>

lemma foldl_invariant:
  assumes "I a" and "\<And>b x. I b \<Longrightarrow> x \<in> set xs \<Longrightarrow> I (f b x)"
  shows "I (foldl f a xs)"
  using assms by (induction xs arbitrary: a) simp_all

lemma pushReading_all:
  "allReadings P dm \<Longrightarrow> P ob \<Longrightarrow> allReadings P (pushReading m ob dm)"
  by (auto simp: allReadings_def pushReading_def split: if_splits)

lemma addReading_all:
  assumes "allReadings (windowReading W) (snd acc)" and "\<bar>offset\<bar> \<le> W"
  shows "allReadings (windowReading W) (snd (addReading ts offset e acc dv))"
proof (cases acc)
  case (Pair seen dm)
  with assms show ?thesis
    by (auto simp: addReading_def Let_def windowReading_def intro!: pushReading_all)
qed

lemma addEntry_all:
  assumes "allReadings (windowReading W) (snd acc)" and "\<bar>offset\<bar> \<le> W"
  shows "allReadings (windowReading W) (snd (addEntry ts offset acc e))"
  unfolding addEntry_def
  by (rule foldl_invariant [where I = "\<lambda>a. allReadings (windowReading W) (snd a)"])
     (simp_all add: assms addReading_all)

lemma addTimestamp_all:
  assumes "allReadings (windowReading (TIME_WINDOW_MS st)) (snd acc)"
  shows "allReadings (windowReading (TIME_WINDOW_MS st)) (snd (addTimestamp getTime st c acc ts))"
proof (cases "getTime ts")
  case None
  with assms show ?thesis by (simp add: addTimestamp_def)
next
  case (Some t)
  show ?thesis
  proof (cases c)
    case None
    with Some assms show ?thesis by (simp add: addTimestamp_def)
  next
    case (Some center)
    show ?thesis
    proof (cases "t \<ge> center - TIME_WINDOW_MS st \<and> t \<le> center + TIME_WINDOW_MS st")
      case True
      then have off: "\<bar>t - center\<bar> \<le> TIME_WINDOW_MS st" by auto
      have "allReadings (windowReading (TIME_WINDOW_MS st))
              (snd (foldl (addEntry ts (t - center)) acc
                 (case dataByTimestamp st ts of None \<Rightarrow> [] | Some es \<Rightarrow> es)))"
        by (rule foldl_invariant [where I = "\<lambda>a. allReadings (windowReading (TIME_WINDOW_MS st)) (snd a)"])
           (simp_all add: assms addEntry_all off)
      with True \<open>getTime ts = Some t\<close> Some show ?thesis
        by (simp add: addTimestamp_def Let_def)
    next
      case False
      with \<open>getTime ts = Some t\<close> Some assms show ?thesis
        by (auto simp: addTimestamp_def Let_def)
    qed
  qed
qed

text \<open>
  Every reading the aggregator returns has an offset within the window, and none
  carries the device identifier: the object pushed has no \<open>mac_hashed\<close> property.
\<close>

lemma aggregated_readings_in_window:
  "allReadings (windowReading (TIME_WINDOW_MS st)) (getDevicesInTimeWindow getTime st timestamp)"
  unfolding getDevicesInTimeWindow_def
proof (rule foldl_invariant [where I = "\<lambda>a. allReadings (windowReading (TIME_WINDOW_MS st)) (snd a)"])
  show "allReadings (windowReading (TIME_WINDOW_MS st)) (snd ({} :: string set, []))"
    by (simp add: allReadings_def)
next
  fix b :: "string set \<times> device_map" and x
  assume "allReadings (windowReading (TIME_WINDOW_MS st)) (snd b)"
  then show "allReadings (windowReading (TIME_WINDOW_MS st))
               (snd (addTimestamp getTime st (getTime timestamp) b x))"
    by (rule addTimestamp_all)
qed

lemma addTimestamp_outside:
  "\<not> inWindow getTime st timestamp ts \<Longrightarrow>
   addTimestamp getTime st (getTime timestamp) acc ts = acc"
  by (auto simp: addTimestamp_def inWindow_def Let_def split: option.splits)

lemma aggregated_empty_window:
  assumes "\<And>ts. ts \<in> set (timestamps st) \<Longrightarrow> \<not> inWindow getTime st timestamp ts"
  shows "getDevicesInTimeWindow getTime st timestamp = []"
proof -
  have "foldl (addTimestamp getTime st (getTime timestamp)) ({}, []) (timestamps st) = ({}, [])"
    by (rule foldl_invariant [where I = "\<lambda>a. a = ({}, [])"])
       (simp_all add: addTimestamp_outside assms)
  then show ?thesis by (simp add: getDevicesInTimeWindow_def)
qed

text \<open>
  A query at the later instant returns both readings under \<open>D\<close> with a window of
  15 seconds, and only the reading of sensor \<open>B\<close> with a window of 5 seconds.
\<close>

lemma aggregated_async_example:
  "map (\<lambda>(m, obs). (m, map sensor_id obs))
     (getDevicesInTimeWindow fixtureTime (asyncStore 15000) ''2024-01-01T00:00:12Z'') =
     [(''D'', [''A'', ''B''])]"
  "map (\<lambda>(m, obs). (m, map sensor_id obs))
     (getDevicesInTimeWindow fixtureTime (asyncStore 5000) ''2024-01-01T00:00:12Z'') =
     [(''D'', [''B''])]"
  by (simp_all add: getDevicesInTimeWindow_def asyncStore_def addTimestamp_def fixtureTime_def
      addEntry_def addReading_def readingKey_def pushReading_def)

section \<open>One sensor\<close>

lemma sqrt_scaled: "sqrt ((a * u)\<^sup>2 + (a * v)\<^sup>2) = \<bar>a\<bar> * sqrt (u\<^sup>2 + v\<^sup>2)"
proof -
  have "(a * u)\<^sup>2 + (a * v)\<^sup>2 = a\<^sup>2 * (u\<^sup>2 + v\<^sup>2)"
    by (simp add: power2_eq_square algebra_simps)
  then show ?thesis by (simp add: real_sqrt_mult)
qed

text \<open>
  With one sensor the estimate lies at the measured distance from the sensor, at the
  bearing \<open>bearing (mac_hashed s)\<close>, whatever that bearing is.
\<close>

lemma single_sensor_at_distance:
  assumes "validObs obs = [s]" and "cos (sensor_lat s * pi / 180) \<noteq> 0"
  shows "\<exists>r. trilaterate obs = Some r \<and>
          gpsToMeters (lat r) (lng r) (sensor_lat s) (sensor_lng s) =
            \<lparr>xc = distance s * sin (bearing (mac_hashed s)),
             yc = distance s * cos (bearing (mac_hashed s))\<rparr> \<and>
          distanceP \<lparr>xc = 0, yc = 0\<rparr> (gpsToMeters (lat r) (lng r) (sensor_lat s) (sensor_lng s)) = distance s \<and>
          variance r = distance s \<and> qualityLevel r = Low \<and> confidence r = 0.2"
proof -
  have "s \<in> set (validObs obs)" using assms(1) by simp
  then have d: "0 < distance s" by (simp add: validObs_def)
  have sq: "sqrt ((distance s * sin a)\<^sup>2 + (distance s * cos a)\<^sup>2) = distance s" for a
    using d by (simp add: sqrt_scaled)
  show ?thesis
    unfolding trilaterate_one [OF assms(1)]
    using assms(2) d
    by (simp add: gpsToMeters_def earthRadius_def distanceP_def sq varianceOr_def)
qed

text \<open>
  For every device the aggregator returns with one kept observation, the estimate is
  due north of the sensor.
\<close>

lemma aggregated_single_sensor_due_north:
  assumes "(m, obs) \<in> set (getDevicesInTimeWindow getTime st timestamp)"
      and "validObs obs = [s]"
  shows "trilaterate obs =
     Some \<lparr>lat = sensor_lat s + (distance s / earthRadius) * (180 / pi),
           lng = sensor_lng s,
           qualityLevel = Low, sensorCount = 1, observations = [s],
           confidence = 0.2, variance = distance s\<rparr>"
proof -
  have "s \<in> set (validObs obs)" using assms(2) by simp
  then have s: "s \<in> set obs" "0 < distance s" by (simp_all add: validObs_def)
  from aggregated_readings_in_window [of st getTime timestamp] assms(1) s(1)
  have "windowReading (TIME_WINDOW_MS st) s"
    unfolding allReadings_def by fastforce
  then have "mac_hashed s = None" by (simp add: windowReading_def)
  with s(2) show ?thesis
    unfolding trilaterate_one [OF assms(2)] by (simp add: bearing_def varianceOr_def)
qed

lemma agg_single: "getDevicesInTimeWindow fixtureTime singleStore ''2024-01-01T00:00:00Z'' =
    [(''a'', [singleReading])]"
  by (simp add: getDevicesInTimeWindow_def singleStore_def addTimestamp_def fixtureTime_def
      addEntry_def addReading_def readingKey_def pushReading_def singleReading_def)

lemma hash_a: "macHash ''a'' = 97"
  by (simp add: macHash_def hashStep_def)

lemma bearing_a: "bearing (Some ''a'') = 97 * pi / 180"
  by (simp add: bearing_def hash_a)

text \<open>
  C3. The bearing is meant to be the hash of the device identifier modulo 360 degrees.
  For device \<open>a\<close> that is 97 degrees, east of north. The reading the aggregator hands
  to the solver has no \<open>mac_hashed\<close>, so the solver uses the bearing 0: the estimate
  is due north of the sensor, with the sensor's own longitude.
\<close>

theorem single_sensor_bearing_ignores_device:
  "getDevicesInTimeWindow fixtureTime singleStore ''2024-01-01T00:00:00Z'' = [(''a'', [singleReading])] \<and>
   trilaterate [singleReading] =
     Some \<lparr>lat = 50 + (5 / earthRadius) * (180 / pi), lng = 6,
           qualityLevel = Low, sensorCount = 1, observations = [singleReading],
           confidence = 0.2, variance = 5\<rparr> \<and>
   bearing (Some ''a'') = 97 * pi / 180 \<and>
   0 < sin (bearing (Some ''a''))"
proof -
  have v: "validObs [singleReading] = [singleReading]"
    by (simp add: validObs_def singleReading_def)
  have t: "trilaterate [singleReading] =
     Some \<lparr>lat = 50 + (5 / earthRadius) * (180 / pi), lng = 6,
           qualityLevel = Low, sensorCount = 1, observations = [singleReading],
           confidence = 0.2, variance = 5\<rparr>"
    unfolding trilaterate_one [OF v]
    by (simp add: singleReading_def bearing_def varianceOr_def)
  have "0 < 97 * pi / 180" "97 * pi / 180 < pi" by simp_all
  then have "0 < sin (97 * pi / 180)" by (rule sin_gt_zero)
  then have s: "0 < sin (bearing (Some ''a''))" by (simp only: bearing_a)
  show ?thesis by (intro conjI) (fact agg_single t bearing_a s)+
qed

section \<open>Two sensors\<close>

lemma two_sensor_est:
  assumes "D = distanceP (pos (pts ! 0)) (pos (pts ! 1))"
  shows "D \<noteq> 0 \<Longrightarrow> estimateTwoSensorPosition pts =
           \<lparr>xc = xc (pos (pts ! 0)) + twoSensorT D (distance (pts ! 0)) (distance (pts ! 1)) * (xc (pos (pts ! 1)) - xc (pos (pts ! 0))),
            yc = yc (pos (pts ! 0)) + twoSensorT D (distance (pts ! 0)) (distance (pts ! 1)) * (yc (pos (pts ! 1)) - yc (pos (pts ! 0))),
            est_variance = Some \<bar>distance (pts ! 0) + distance (pts ! 1) - D\<bar>\<rparr>"
    and "D = 0 \<Longrightarrow> estimateTwoSensorPosition pts =
           \<lparr>xc = xc (pos (pts ! 0)), yc = yc (pos (pts ! 0)), est_variance = None\<rparr>"
proof -
  have eq: "sqrt ((xc (pos (pts ! 1)) - xc (pos (pts ! 0))) * (xc (pos (pts ! 1)) - xc (pos (pts ! 0))) +
                  (yc (pos (pts ! 1)) - yc (pos (pts ! 0))) * (yc (pos (pts ! 1)) - yc (pos (pts ! 0)))) = D"
    using assms by (simp add: distanceP_def power2_eq_square)
  show "D \<noteq> 0 \<Longrightarrow> estimateTwoSensorPosition pts =
           \<lparr>xc = xc (pos (pts ! 0)) + twoSensorT D (distance (pts ! 0)) (distance (pts ! 1)) * (xc (pos (pts ! 1)) - xc (pos (pts ! 0))),
            yc = yc (pos (pts ! 0)) + twoSensorT D (distance (pts ! 0)) (distance (pts ! 1)) * (yc (pos (pts ! 1)) - yc (pos (pts ! 0))),
            est_variance = Some \<bar>distance (pts ! 0) + distance (pts ! 1) - D\<bar>\<rparr>"
    unfolding estimateTwoSensorPosition_def Let_def eq
    by (simp add: twoSensorT_def power2_eq_square mult.assoc)
  show "D = 0 \<Longrightarrow> estimateTwoSensorPosition pts =
           \<lparr>xc = xc (pos (pts ! 0)), yc = yc (pos (pts ! 0)), est_variance = None\<rparr>"
    unfolding estimateTwoSensorPosition_def Let_def eq by simp
qed

lemma two_sensor_residual_zero:
  assumes len: "length pts = 2"
      and D: "D = distanceP (pos (pts ! 0)) (pos (pts ! 1))"
      and d1: "0 < distance (pts ! 0)" and d2: "0 < distance (pts ! 1)"
      and sum: "distance (pts ! 0) + distance (pts ! 1) = D"
  shows "calculateResidual (estimateTwoSensorPosition pts) pts = 0"
proof -
  define a1 where "a1 = distance (pts ! 0)"
  define a2 where "a2 = distance (pts ! 1)"
  define dx where "dx = xc (pos (pts ! 1)) - xc (pos (pts ! 0))"
  define dy where "dy = yc (pos (pts ! 1)) - yc (pos (pts ! 0))"
  have Dpos: "0 < D" using d1 d2 sum by simp
  have Dsq: "D = sqrt (dx\<^sup>2 + dy\<^sup>2)" using D by (simp add: distanceP_def dx_def dy_def)
  have a2: "a2 = D - a1" using sum by (simp add: a1_def a2_def)
  have "(D\<^sup>2 + a1\<^sup>2 - a2\<^sup>2) / (2 * D\<^sup>2) = (2 * D * a1) / (2 * D\<^sup>2)"
    unfolding a2 by (simp add: power2_eq_square algebra_simps)
  also have "\<dots> = a1 / D" using Dpos by (simp add: power2_eq_square)
  finally have t0: "(D\<^sup>2 + a1\<^sup>2 - a2\<^sup>2) / (2 * D\<^sup>2) = a1 / D" .
  have a1D: "0 < a1 / D" "a1 / D < 1" using d1 d2 sum Dpos by (simp_all add: a1_def)
  have t: "twoSensorT D a1 a2 = a1 / D"
    unfolding twoSensorT_def t0 using a1D by simp
  have est: "estimateTwoSensorPosition pts =
           \<lparr>xc = xc (pos (pts ! 0)) + a1 / D * dx,
            yc = yc (pos (pts ! 0)) + a1 / D * dy,
            est_variance = Some \<bar>a1 + a2 - D\<bar>\<rparr>"
    using two_sensor_est(1) [OF D] Dpos t by (simp add: a1_def a2_def dx_def dy_def)
  have e1: "distanceP (estimateTwoSensorPosition pts) (pos (pts ! 0)) = a1"
  proof -
    have "distanceP (estimateTwoSensorPosition pts) (pos (pts ! 0)) =
            sqrt ((- (a1 / D) * dx)\<^sup>2 + (- (a1 / D) * dy)\<^sup>2)"
      by (simp add: est distanceP_def)
    also have "\<dots> = \<bar>- (a1 / D)\<bar> * sqrt (dx\<^sup>2 + dy\<^sup>2)" by (rule sqrt_scaled)
    also have "\<dots> = a1" using a1D Dpos Dsq [symmetric] d1 [folded a1_def] by simp
    finally show ?thesis .
  qed
  have e2: "distanceP (estimateTwoSensorPosition pts) (pos (pts ! 1)) = a2"
  proof -
    have "xc (pos (pts ! 1)) - (xc (pos (pts ! 0)) + a1 / D * dx) = (1 - a1 / D) * dx"
         "yc (pos (pts ! 1)) - (yc (pos (pts ! 0)) + a1 / D * dy) = (1 - a1 / D) * dy"
      by (simp_all add: dx_def dy_def algebra_simps)
    then have "distanceP (estimateTwoSensorPosition pts) (pos (pts ! 1)) =
            sqrt (((1 - a1 / D) * dx)\<^sup>2 + ((1 - a1 / D) * dy)\<^sup>2)"
      by (simp add: est distanceP_def)
    also have "\<dots> = \<bar>1 - a1 / D\<bar> * sqrt (dx\<^sup>2 + dy\<^sup>2)" by (rule sqrt_scaled)
    also have "\<dots> = (1 - a1 / D) * D" using a1D Dsq [symmetric] by simp
    also have "\<dots> = D - a1" using Dpos by (simp add: left_diff_distrib)
    also have "\<dots> = a2" using a2 by simp
    finally show ?thesis .
  qed
  from len obtain p q where pts: "pts = [p, q]"
    by (cases pts; cases "tl pts") auto
  have "calculateResidual (estimateTwoSensorPosition pts) pts =
          (\<bar>distanceP (estimateTwoSensorPosition pts) (pos (pts ! 0)) - a1\<bar> +
           \<bar>distanceP (estimateTwoSensorPosition pts) (pos (pts ! 1)) - a2\<bar>) / 2"
    unfolding calculateResidual_def a1_def a2_def by (subst (3 4) pts) (simp add: pts)
  then show ?thesis using e1 e2 by simp
qed

text \<open>
  C2. With exactly two kept observations at local positions \<open>P1\<close>, \<open>P2\<close>, separation
  \<open>D\<close> and measured distances \<open>d1\<close>, \<open>d2\<close>: if \<open>D > 0\<close> the position is
  \<open>P1 + t (P2 - P1)\<close> with \<open>t = (D\<^sup>2 + d1\<^sup>2 - d2\<^sup>2) / (2 D\<^sup>2)\<close> clamped to
  \<open>[-0.5, 1.5]\<close>, and the reported variance is \<open>\<bar>d1 + d2 - D\<bar>\<close>; if \<open>D = 0\<close> the
  position is \<open>P1\<close>. The returned coordinate is that position taken back through the
  centroid of the sensors.
\<close>

theorem two_sensor_position:
  assumes "length (validObs obs) = 2"
      and "pts = projectPoints (validObs obs)"
      and "P1 = pos (pts ! 0)" and "P2 = pos (pts ! 1)"
      and "d1 = distance (validObs obs ! 0)" and "d2 = distance (validObs obs ! 1)"
      and "D = distanceP P1 P2"
      and "t = max (- 0.5) (min 1.5 ((D\<^sup>2 + d1\<^sup>2 - d2\<^sup>2) / (2 * D\<^sup>2)))"
      and "g1 = metersToGps (xc P1 + t * (xc P2 - xc P1)) (yc P1 + t * (yc P2 - yc P1))
                  (refLatOf (validObs obs)) (refLngOf (validObs obs))"
      and "g0 = metersToGps (xc P1) (yc P1) (refLatOf (validObs obs)) (refLngOf (validObs obs))"
  shows "\<exists>r. trilaterate obs = Some r \<and>
          (D > 0 \<longrightarrow>
             xc (estimateTwoSensorPosition pts) = xc P1 + t * (xc P2 - xc P1) \<and>
             yc (estimateTwoSensorPosition pts) = yc P1 + t * (yc P2 - yc P1) \<and>
             - 0.5 \<le> t \<and> t \<le> 1.5 \<and>
             lat r = lat g1 \<and> lng r = lng g1 \<and> variance r = \<bar>d1 + d2 - D\<bar>) \<and>
          (D = 0 \<longrightarrow>
             xc (estimateTwoSensorPosition pts) = xc P1 \<and>
             yc (estimateTwoSensorPosition pts) = yc P1 \<and>
             lat r = lat g0 \<and> lng r = lng g0)"
proof -
  let ?vs = "validObs obs"
  let ?e = "estimateTwoSensorPosition pts"
  have len: "length pts = 2" using assms(1,2) by (simp add: projectPoints_def)
  have dist: "distance (pts ! 0) = d1" "distance (pts ! 1) = d2"
    using assms(1,2,5,6) by (simp_all add: projectPoints_def toPoint_def observation.extend_def)
  have "?vs ! 0 \<in> set ?vs" "?vs ! 1 \<in> set ?vs" using assms(1) by simp_all
  then have pos: "0 < d1" "0 < d2" using assms(5,6) by (simp_all add: validObs_def)
  have D: "D = distanceP (pos (pts ! 0)) (pos (pts ! 1))" using assms(3,4,7) by simp
  have tT: "t = twoSensorT D d1 d2" using assms(8) by (simp add: twoSensorT_def)
  have tb: "- 0.5 \<le> t" "t \<le> 1.5" using assms(8) by simp_all
  have tri: "trilaterate obs =
     Some \<lparr>lat = lat (metersToGps (xc ?e) (yc ?e) (refLatOf ?vs) (refLngOf ?vs)),
           lng = lng (metersToGps (xc ?e) (yc ?e) (refLatOf ?vs) (refLngOf ?vs)),
           qualityLevel = Medium, sensorCount = 2, observations = ?vs,
           confidence = 0.5,
           variance = varianceOr (est_variance ?e) (calculateResidual ?e pts)\<rparr>"
    using trilaterate_two [OF assms(1)] assms(2) by (simp add: Let_def)
  have nondeg: "xc ?e = xc P1 + t * (xc P2 - xc P1) \<and> yc ?e = yc P1 + t * (yc P2 - yc P1) \<and>
      varianceOr (est_variance ?e) (calculateResidual ?e pts) = \<bar>d1 + d2 - D\<bar>" if "D > 0"
  proof -
    from that have "D \<noteq> 0" by simp
    from two_sensor_est(1) [OF D this]
    have e: "?e = \<lparr>xc = xc P1 + t * (xc P2 - xc P1), yc = yc P1 + t * (yc P2 - yc P1),
                 est_variance = Some \<bar>d1 + d2 - D\<bar>\<rparr>"
      using dist tT assms(3,4) by simp
    have "varianceOr (est_variance ?e) (calculateResidual ?e pts) = \<bar>d1 + d2 - D\<bar>"
    proof (cases "d1 + d2 = D")
      case True
      with two_sensor_residual_zero [OF len D] pos dist
      have "calculateResidual ?e pts = 0" by simp
      with True show ?thesis by (simp add: e varianceOr_def)
    next
      case False
      then show ?thesis by (simp add: e varianceOr_def)
    qed
    with e show ?thesis by simp
  qed
  have deg: "xc ?e = xc P1 \<and> yc ?e = yc P1" if "D = 0"
    using two_sensor_est(2) [OF D that] by (simp add: assms(3))
  show ?thesis
    using tri nondeg deg tb by (simp add: assms(9,10))
qed

lemma valid_apart: "validObs apartObs =
    [realtimeObservation ''A'' 5 (Some (- 60)) 0 0, realtimeObservation ''B'' 17 (Some (- 75)) 0 1]"
  by (simp add: validObs_def apartObs_def realtimeObservation_def)

lemma valid_coincident: "validObs coincidentObs = coincidentObs"
  by (simp add: validObs_def coincidentObs_def realtimeObservation_def)

lemma pts_apart: "projectPoints (validObs apartObs) =
   [observation.extend (realtimeObservation ''A'' 5 (Some (- 60)) 0 0)
      (point.fields \<lparr>xc = - (pi / 360 * earthRadius), yc = 0\<rparr>),
    observation.extend (realtimeObservation ''B'' 17 (Some (- 75)) 0 1)
      (point.fields \<lparr>xc = pi / 360 * earthRadius, yc = 0\<rparr>)]"
  unfolding valid_apart
  by (simp add: projectPoints_def refLatOf_def refLngOf_def toPoint_def
      gpsToMeters_def realtimeObservation_def)

lemma pts_coincident: "projectPoints (validObs coincidentObs) =
   [observation.extend (realtimeObservation ''A'' 5 None 50 6) (point.fields \<lparr>xc = 0, yc = 0\<rparr>),
    observation.extend (realtimeObservation ''B'' 17 None 50 6) (point.fields \<lparr>xc = 0, yc = 0\<rparr>)]"
  unfolding valid_coincident
  by (simp add: projectPoints_def coincidentObs_def refLatOf_def refLngOf_def toPoint_def
      gpsToMeters_def realtimeObservation_def)

lemma D_apart: "distanceP (pos (projectPoints (validObs apartObs) ! 0))
                  (pos (projectPoints (validObs apartObs) ! 1)) = pi / 180 * earthRadius"
  unfolding pts_apart
  by (simp add: distanceP_def observation.extend_def point.fields_def earthRadius_def)

lemma D_coincident: "distanceP (pos (projectPoints (validObs coincidentObs) ! 0))
                  (pos (projectPoints (validObs coincidentObs) ! 1)) = 0"
  unfolding pts_coincident
  by (simp add: distanceP_def observation.extend_def point.fields_def)

lemma pick_nondegenerate:
  "\<exists>r. P r \<and> (A \<longrightarrow> Q1 \<and> Q2 \<and> Q3 \<and> Q4 \<and> Q5 r \<and> Q6 r \<and> Q7 r) \<and> B r \<Longrightarrow> A
     \<Longrightarrow> \<exists>r. P r \<and> Q7 r"
  by blast

lemma pick_degenerate:
  "\<exists>r. P r \<and> A r \<and> (C \<longrightarrow> Q1 \<and> Q2 \<and> Q3 r \<and> Q4 r) \<Longrightarrow> C
     \<Longrightarrow> \<exists>r. P r \<and> Q3 r \<and> Q4 r"
  by blast

theorem two_sensor_position_witness:
  "length (validObs apartObs) = 2 \<and>
   distanceP (pos (projectPoints (validObs apartObs) ! 0))
     (pos (projectPoints (validObs apartObs) ! 1)) > 0 \<and>
   (\<exists>r. trilaterate apartObs = Some r \<and> variance r = \<bar>5 + 17 - pi / 180 * earthRadius\<bar>) \<and>
   length (validObs coincidentObs) = 2 \<and>
   distanceP (pos (projectPoints (validObs coincidentObs) ! 0))
     (pos (projectPoints (validObs coincidentObs) ! 1)) = 0 \<and>
   (\<exists>r. trilaterate coincidentObs = Some r \<and> lat r = 50 \<and> lng r = 6)"
proof -
  have a: "length (validObs apartObs) = 2" by (simp add: valid_apart)
  have c: "length (validObs coincidentObs) = 2"
    unfolding valid_coincident by (simp add: coincidentObs_def)
  have Dpos: "pi / 180 * earthRadius > 0" by (simp add: earthRadius_def)
  have da: "distance (validObs apartObs ! 0) = 5" "distance (validObs apartObs ! 1) = 17"
    by (simp_all add: valid_apart realtimeObservation_def)
  have rc: "refLatOf (validObs coincidentObs) = 50" "refLngOf (validObs coincidentObs) = 6"
    unfolding valid_coincident
    by (simp_all add: coincidentObs_def refLatOf_def refLngOf_def realtimeObservation_def)
  have pc: "pos (projectPoints (validObs coincidentObs) ! 0) = \<lparr>xc = 0, yc = 0\<rparr>"
    unfolding pts_coincident by (simp add: observation.extend_def point.fields_def)
  have g: "lat (metersToGps 0 0 50 6) = 50" "lng (metersToGps 0 0 50 6) = 6"
    by (simp_all add: metersToGps_def)
  have z: "(0::real) = 0" by simp
  note A = two_sensor_position [OF a refl refl refl refl refl refl refl refl refl,
      unfolded D_apart da]
  note C = two_sensor_position [OF c refl refl refl refl refl refl refl refl refl,
      unfolded D_coincident, unfolded rc pc xy.simps g]
  have r1: "\<exists>r. trilaterate apartObs = Some r \<and> variance r = \<bar>5 + 17 - pi / 180 * earthRadius\<bar>"
    by (rule pick_nondegenerate [OF A Dpos])
  have r2: "\<exists>r. trilaterate coincidentObs = Some r \<and> lat r = 50 \<and> lng r = 6"
    by (rule pick_degenerate [OF C z])
  have p1: "distanceP (pos (projectPoints (validObs apartObs) ! 0))
     (pos (projectPoints (validObs apartObs) ! 1)) > 0"
    unfolding D_apart by (rule Dpos)
  from a p1 r1 c D_coincident r2 show ?thesis by (intro conjI)
qed

section \<open>Three or more sensors\<close>



lemma others_tl: "map (\<lambda>i. xs ! i) [1..<length xs] = tl xs"
  by (rule nth_equalityI) (simp_all add: nth_tl)

lemma linearSystem_parts:
  "linearSystem pts =
     (map (rowA (pts ! 0)) (tl pts), map (rowB (pts ! 0)) (tl pts), map rowW (tl pts))"
  unfolding linearSystem_def Let_def others_tl by simp



lemma tl_projectPoints: "tl (projectPoints vs) = map (toPoint (refLatOf vs) (refLngOf vs)) (tl vs)"
  by (simp add: projectPoints_def map_tl)

lemma rowW_toPoint: "rowW (toPoint a b ob) = (1 / (distance ob + 1)) * rssiWeight (rssi ob)"
  by (simp add: rowW_def toPoint_def observation.extend_def)

lemma system_weights:
  "snd (snd (linearSystem (projectPoints vs))) =
     map (\<lambda>ob. (1 / (distance ob + 1)) * rssiWeight (rssi ob)) (tl vs)"
  by (simp add: linearSystem_parts tl_projectPoints rowW_toPoint comp_def)




lemma upt_2: "[0..<2] = [0, 1]" by (simp add: upt_rec)







section \<open>Three or more sensors: the singular system in double precision\<close>

lemma scale_down:
  assumes "2 ^ 52 \<le> \<bar>q\<bar>" and "\<bar>q\<bar> < 2 ^ 53"
  shows "j < fuel \<Longrightarrow> scaleMantissa fuel (q * 2 ^ j) e = Some (q, e + int j)"
proof (induction j arbitrary: fuel e)
  case 0
  then obtain f where "fuel = Suc f" by (cases fuel) auto
  with assms show ?case by simp
next
  case (Suc j)
  then obtain f where f: "fuel = Suc f" "j < f" by (cases fuel) auto
  have "\<bar>q\<bar> * 2 \<le> \<bar>q\<bar> * 2 ^ Suc j" by (intro mult_left_mono) simp_all
  with assms(1) have big: "2 ^ 53 \<le> \<bar>q * 2 ^ Suc j\<bar>" by (simp add: abs_mult)
  have "scaleMantissa fuel (q * 2 ^ Suc j) e = scaleMantissa f (q * 2 ^ Suc j / 2) (e + 1)"
    unfolding f using big by simp
  also have "q * 2 ^ Suc j / 2 = q * 2 ^ j" by simp
  also have "scaleMantissa f (q * 2 ^ j) (e + 1) = Some (q, e + 1 + int j)"
    by (rule Suc.IH [OF f(2)])
  finally show ?case by simp
qed

lemma scale_up:
  assumes "2 ^ 52 \<le> \<bar>q\<bar>" and "\<bar>q\<bar> < 2 ^ 53"
  shows "j < fuel \<Longrightarrow> scaleMantissa fuel (q / 2 ^ j) e = Some (q, e - int j)"
proof (induction j arbitrary: fuel e)
  case 0
  then obtain f where "fuel = Suc f" by (cases fuel) auto
  with assms show ?case by simp
next
  case (Suc j)
  then obtain f where f: "fuel = Suc f" "j < f" by (cases fuel) auto
  have "\<bar>q\<bar> / 2 ^ Suc j \<le> \<bar>q\<bar> / 2" by (intro divide_left_mono) simp_all
  moreover have "\<bar>q\<bar> / 2 < 2 ^ 52" using assms(2) by simp
  ultimately have "\<bar>q\<bar> / 2 ^ Suc j < 2 ^ 52" by (rule le_less_trans)
  moreover have "\<bar>q / 2 ^ Suc j\<bar> = \<bar>q\<bar> / 2 ^ Suc j" by (simp add: abs_divide)
  ultimately have small: "\<bar>q / 2 ^ Suc j\<bar> < 2 ^ 52" by (simp only:)
  then have nb: "\<not> 2 ^ 53 \<le> \<bar>q / 2 ^ Suc j\<bar>" by simp
  have "scaleMantissa fuel (q / 2 ^ Suc j) e = scaleMantissa f (q / 2 ^ Suc j * 2) (e - 1)"
    unfolding f using small nb by (simp del: power_Suc)
  also have "q / 2 ^ Suc j * 2 = q / 2 ^ j" by simp
  also have "scaleMantissa f (q / 2 ^ j) (e - 1) = Some (q, e - 1 - int j)"
    by (rule Suc.IH [OF f(2)])
  finally show ?case by simp
qed

lemma pow2_int: "pow2 (int j) = 2 ^ j"
  by (simp add: pow2_def)

lemma pow2_neg: "pow2 (- int j) = 1 / 2 ^ j"
proof (cases j)
  case 0
  then show ?thesis by (simp add: pow2_def)
next
  case (Suc k)
  then have "\<not> 0 \<le> - int j" by simp
  moreover have "nat (- (- int j)) = j" by simp
  ultimately show ?thesis unfolding pow2_def by (simp only: if_False)
qed

lemma binary64_times:
  assumes "2 ^ 52 \<le> \<bar>q\<bar>" and "\<bar>q\<bar> < 2 ^ 53" and "j < 2200" and "v = q * 2 ^ j"
  shows "binary64 v = of_int (roundHalfEven q) * 2 ^ j"
proof -
  from assms(1) have "q \<noteq> 0" by auto
  then have "v \<noteq> 0" using assms(4) by simp
  moreover have "scaleMantissa 2200 v 0 = Some (q, int j)"
    unfolding assms(4) using scale_down [OF assms(1,2), of j 2200 0] assms(3) by simp
  ultimately show ?thesis by (simp add: binary64_def pow2_int)
qed

lemma binary64_over:
  assumes "2 ^ 52 \<le> \<bar>q\<bar>" and "\<bar>q\<bar> < 2 ^ 53" and "j < 2200" and "v = q / 2 ^ j"
  shows "binary64 v = of_int (roundHalfEven q) / 2 ^ j"
proof -
  from assms(1) have "q \<noteq> 0" by auto
  then have "v \<noteq> 0" using assms(4) by simp
  moreover have "scaleMantissa 2200 v 0 = Some (q, - int j)"
    unfolding assms(4) using scale_up [OF assms(1,2), of j 2200 0] assms(3) by simp
  ultimately show ?thesis by (simp add: binary64_def pow2_neg)
qed

text \<open>
  What the source guarantees: when the determinant it has computed is below the
  threshold, the returned point is the mean of the rows of \<open>A\<close>, as it computes it.
\<close>

lemma fallback_on_computed_determinant:
  assumes "\<bar>det64 A w\<bar> < binary64 (1 / 10 ^ 10)"
  shows "solveWeightedLeastSquares64 A b w =
           \<lparr>xc = fdiv (accum64 (\<lambda>i. fst (A ! i)) (length A)) (real (length A)),
            yc = fdiv (accum64 (\<lambda>i. snd (A ! i)) (length A)) (real (length A))\<rparr>"
  using assms by (simp add: solveWeightedLeastSquares64_def Let_def)

text \<open>The roundings that occur in the evaluation on \<open>singularA\<close>, one lemma each.\<close>

lemma rounded_1: "fadd 2 1 = 3"
  unfolding fadd_def
  by (rule trans [OF binary64_over [where q = "6755399441055744" and j = 51]])
     (simp_all add: roundHalfEven_def)

lemma rounded_2: "fdiv 1 3 = 6004799503160661 / 18014398509481984"
  unfolding fdiv_def
  by (rule trans [OF binary64_over [where q = "18014398509481984 / 3" and j = 54]])
     (simp_all add: roundHalfEven_def)

lemma rounded_3: "fmul (6004799503160661 / 18014398509481984) 1 = 6004799503160661 / 18014398509481984"
  unfolding fmul_def
  by (rule trans [OF binary64_over [where q = "6004799503160661" and j = 54]])
     (simp_all add: roundHalfEven_def)

lemma rounded_4: "fadd 6 1 = 7"
  unfolding fadd_def
  by (rule trans [OF binary64_over [where q = "7881299347898368" and j = 50]])
     (simp_all add: roundHalfEven_def)

lemma rounded_5: "fdiv 1 7 = 2573485501354569 / 18014398509481984"
  unfolding fdiv_def
  by (rule trans [OF binary64_over [where q = "36028797018963968 / 7" and j = 55]])
     (simp_all add: roundHalfEven_def)

lemma rounded_6: "fmul (2573485501354569 / 18014398509481984) 1 = 2573485501354569 / 18014398509481984"
  unfolding fmul_def
  by (rule trans [OF binary64_over [where q = "5146971002709138" and j = 55]])
     (simp_all add: roundHalfEven_def)

lemma rounded_7: "fmul (6004799503160661 / 18014398509481984) 60 = 20"
  unfolding fmul_def
  by (rule trans [OF binary64_over [where q = "90071992547409915 / 16" and j = 48]])
     (simp_all add: roundHalfEven_def)

lemma rounded_8: "fmul 20 60 = 1200"
  unfolding fmul_def
  by (rule trans [OF binary64_over [where q = "5277655813324800" and j = 42]])
     (simp_all add: roundHalfEven_def)

lemma rounded_9: "fadd 0 1200 = 1200"
  unfolding fadd_def
  by (rule trans [OF binary64_over [where q = "5277655813324800" and j = 42]])
     (simp_all add: roundHalfEven_def)

lemma rounded_10: "fmul (2573485501354569 / 18014398509481984) 180 = 7237927972559725 / 281474976710656"
  unfolding fmul_def
  by (rule trans [OF binary64_over [where q = "115806847560955605 / 16" and j = 48]])
     (simp_all add: roundHalfEven_def)

lemma rounded_11: "fmul (7237927972559725 / 281474976710656) 180 = 5089168105706057 / 1099511627776"
  unfolding fmul_def
  by (rule trans [OF binary64_over [where q = "325706758765187625 / 64" and j = 40]])
     (simp_all add: roundHalfEven_def)

lemma rounded_12: "fadd 1200 (5089168105706057 / 1099511627776) = 6408582059037257 / 1099511627776"
  unfolding fadd_def
  by (rule trans [OF binary64_over [where q = "6408582059037257" and j = 40]])
     (simp_all add: roundHalfEven_def)

lemma rounded_13: "fmul 20 140 = 2800"
  unfolding fmul_def
  by (rule trans [OF binary64_over [where q = "6157265115545600" and j = 41]])
     (simp_all add: roundHalfEven_def)

lemma rounded_14: "fadd 0 2800 = 2800"
  unfolding fadd_def
  by (rule trans [OF binary64_over [where q = "6157265115545600" and j = 41]])
     (simp_all add: roundHalfEven_def)

lemma rounded_15: "fmul (7237927972559725 / 281474976710656) 420 = 5937362789990399 / 549755813888"
  unfolding fmul_def
  by (rule trans [OF binary64_over [where q = "759982437118771125 / 128" and j = 39]])
     (simp_all add: roundHalfEven_def)

lemma rounded_16: "fadd 2800 (5937362789990399 / 549755813888) = 7476679068876799 / 549755813888"
  unfolding fadd_def
  by (rule trans [OF binary64_over [where q = "7476679068876799" and j = 39]])
     (simp_all add: roundHalfEven_def)

lemma rounded_17: "fmul (6004799503160661 / 18014398509481984) 140 = 6567749456581973 / 140737488355328"
  unfolding fmul_def
  by (rule trans [OF binary64_over [where q = "210167982610623135 / 32" and j = 47]])
     (simp_all add: roundHalfEven_def)

lemma rounded_18: "fmul (6567749456581973 / 140737488355328) 60 = 2800"
  unfolding fmul_def
  by (rule trans [OF binary64_over [where q = "98516241848729595 / 16" and j = 41]])
     (simp_all add: roundHalfEven_def)

lemma rounded_19: "fmul (2573485501354569 / 18014398509481984) 420 = 60"
  unfolding fmul_def
  by (rule trans [OF binary64_over [where q = "270215977642229745 / 32" and j = 47]])
     (simp_all add: roundHalfEven_def)

lemma rounded_20: "fmul 60 180 = 10800"
  unfolding fmul_def
  by (rule trans [OF binary64_over [where q = "5937362789990400" and j = 39]])
     (simp_all add: roundHalfEven_def)

lemma rounded_21: "fadd 2800 10800 = 13600"
  unfolding fadd_def
  by (rule trans [OF binary64_over [where q = "7476679068876800" and j = 39]])
     (simp_all add: roundHalfEven_def)

lemma rounded_22: "fmul (6567749456581973 / 140737488355328) 140 = 7183475968136533 / 1099511627776"
  unfolding fmul_def
  by (rule trans [OF binary64_over [where q = "229871230980369055 / 32" and j = 40]])
     (simp_all add: roundHalfEven_def)

lemma rounded_23: "fadd 0 (7183475968136533 / 1099511627776) = 7183475968136533 / 1099511627776"
  unfolding fadd_def
  by (rule trans [OF binary64_over [where q = "7183475968136533" and j = 40]])
     (simp_all add: roundHalfEven_def)

lemma rounded_24: "fmul 60 420 = 25200"
  unfolding fmul_def
  by (rule trans [OF binary64_over [where q = "6926923254988800" and j = 38]])
     (simp_all add: roundHalfEven_def)

lemma rounded_25: "fadd (7183475968136533 / 1099511627776) 25200 = 8722792247022933 / 274877906944"
  unfolding fadd_def
  by (rule trans [OF binary64_over [where q = "34891168988091733 / 4" and j = 38]])
     (simp_all add: roundHalfEven_def)

lemma rounded_26: "fmul 20 5800 = 116000"
  unfolding fmul_def
  by (rule trans [OF binary64_over [where q = "7971459301376000" and j = 36]])
     (simp_all add: roundHalfEven_def)

lemma rounded_27: "fadd 0 116000 = 116000"
  unfolding fadd_def
  by (rule trans [OF binary64_over [where q = "7971459301376000" and j = 36]])
     (simp_all add: roundHalfEven_def)

lemma rounded_28: "fmul (7237927972559725 / 281474976710656) 52168 = 5761539100227291 / 4294967296"
  unfolding fmul_def
  by (rule trans [OF binary64_over [where q = "47198528309061966725 / 8192" and j = 32]])
     (simp_all add: roundHalfEven_def)

lemma rounded_29: "fadd 116000 (5761539100227291 / 4294967296) = 6259755306563291 / 4294967296"
  unfolding fadd_def
  by (rule trans [OF binary64_over [where q = "6259755306563291" and j = 32]])
     (simp_all add: roundHalfEven_def)

lemma rounded_30: "fmul (6567749456581973 / 140737488355328) 5800 = 2325008962901333 / 8589934592"
  unfolding fmul_def
  by (rule trans [OF binary64_over [where q = "4761618356021930425 / 1024" and j = 34]])
     (simp_all add: roundHalfEven_def)

lemma rounded_31: "fadd 0 (2325008962901333 / 8589934592) = 2325008962901333 / 8589934592"
  unfolding fadd_def
  by (rule trans [OF binary64_over [where q = "4650017925802666" and j = 34]])
     (simp_all add: roundHalfEven_def)

lemma rounded_32: "fmul 60 52168 = 3130080"
  unfolding fmul_def
  by (rule trans [OF binary64_over [where q = "6721795616931840" and j = 31]])
     (simp_all add: roundHalfEven_def)

lemma rounded_33: "fadd (2325008962901333 / 8589934592) 3130080 = 7303047857657173 / 2147483648"
  unfolding fadd_def
  by (rule trans [OF binary64_over [where q = "29212191430628693 / 4" and j = 31]])
     (simp_all add: roundHalfEven_def)

lemma rounded_34: "fmul (6408582059037257 / 1099511627776) (8722792247022933 / 274877906944) = 184960000"
  unfolding fmul_def
  by (rule trans [OF binary64_over [where q = "55900729898980449656106380414781 / 9007199254740992" and j = 25]])
     (simp_all add: roundHalfEven_def)

lemma rounded_35: "fmul (7476679068876799 / 549755813888) 13600 = 6206227742719999 / 33554432"
  unfolding fmul_def
  by (rule trans [OF binary64_over [where q = "3177588604272639575 / 512" and j = 25]])
     (simp_all add: roundHalfEven_def)

lemma rounded_36: "fsub 184960000 (6206227742719999 / 33554432) = 1 / 33554432"
  unfolding fsub_def
  by (rule trans [OF binary64_over [where q = "4503599627370496" and j = 77]])
     (simp_all add: roundHalfEven_def)

lemma rounded_37: "binary64 (1 / 10000000000) = 7737125245533627 / 77371252455336267181195264"
  by (rule trans [OF binary64_over [where q = "75557863725914323419136 / 9765625" and j = 86]])
     (simp_all add: roundHalfEven_def)

lemma rounded_38: "fmul (8722792247022933 / 274877906944) (6259755306563291 / 4294967296) = 6062100272469333 / 131072"
  unfolding fmul_def
  by (rule trans [OF binary64_over [where q = "54602545056350937918050292952503 / 9007199254740992" and j = 17]])
     (simp_all add: roundHalfEven_def)

lemma rounded_39: "fmul (7476679068876799 / 549755813888) (7303047857657173 / 2147483648) = 1515525068117333 / 32768"
  unfolding fmul_def
  by (rule trans [OF binary64_over [where q = "54602545056350933947700715629227 / 9007199254740992" and j = 17]])
     (simp_all add: roundHalfEven_def)

lemma rounded_40: "fsub (6062100272469333 / 131072) (1515525068117333 / 32768) = 1 / 131072"
  unfolding fsub_def
  by (rule trans [OF binary64_over [where q = "4503599627370496" and j = 69]])
     (simp_all add: roundHalfEven_def)

lemma rounded_41: "fdiv (1 / 131072) (1 / 33554432) = 256"
  unfolding fdiv_def
  by (rule trans [OF binary64_over [where q = "4503599627370496" and j = 44]])
     (simp_all add: roundHalfEven_def)

lemma rounded_42: "fmul (6408582059037257 / 1099511627776) (7303047857657173 / 2147483648) = 5196085947830857 / 262144"
  unfolding fmul_def
  by (rule trans [OF binary64_over [where q = "46802181476872234314491940294461 / 9007199254740992" and j = 18]])
     (simp_all add: roundHalfEven_def)

lemma rounded_43: "fmul 13600 (6259755306563291 / 4294967296) = 5196085947830857 / 262144"
  unfolding fmul_def
  by (rule trans [OF binary64_over [where q = "2660396005289398675 / 512" and j = 18]])
     (simp_all add: roundHalfEven_def)

lemma rounded_44: "fsub (5196085947830857 / 262144) (5196085947830857 / 262144) = 0"
  by (simp add: fsub_def binary64_def)

lemma rounded_45: "fdiv 0 (1 / 33554432) = 0"
  by (simp add: fdiv_def binary64_def)

lemmas rounded = rounded_1 rounded_2 rounded_3 rounded_4 rounded_5 rounded_6 rounded_7 rounded_8 rounded_9 rounded_10 rounded_11 rounded_12 rounded_13 rounded_14 rounded_15 rounded_16 rounded_17 rounded_18 rounded_19 rounded_20 rounded_21 rounded_22 rounded_23 rounded_24 rounded_25 rounded_26 rounded_27 rounded_28 rounded_29 rounded_30 rounded_31 rounded_32 rounded_33 rounded_34 rounded_35 rounded_36 rounded_37 rounded_38 rounded_39 rounded_40 rounded_41 rounded_42 rounded_43 rounded_44 rounded_45

lemma singularW_value:
  "singularW = [6004799503160661 / 18014398509481984, 2573485501354569 / 18014398509481984]"
  by (simp add: singularW_def rowW64_def rounded)

lemma sys_singular: "linearSystem singularPts = (singularA, singularB, [1 / 3, 1 / 7])"
  by (simp add: linearSystem_parts singularPts_def localPoint_def rowA_def rowB_def rowW_def
      rssiWeight_def singularA_def singularB_def)

lemma det_singular: "det singularA w = 0"
  by (simp add: singularA_def det_def ata00_def ata01_def ata10_def ata11_def accum_def upt_2)
     (simp add: algebra_simps)

lemma solve_singular: "solveWeightedLeastSquares singularA b w = \<lparr>xc = 120, yc = 280\<rparr>"
  unfolding solveWeightedLeastSquares_def det_singular
  by (simp add: singularA_def Let_def accum_def upt_2)

lemma multi_singular:
  "xc (estimateMultiSensorPosition singularPts) = 120"
  "yc (estimateMultiSensorPosition singularPts) = 280"
  by (simp_all add: estimateMultiSensorPosition_def sys_singular solve_singular Let_def)

lemma det64_singular: "det64 singularA singularW = 1 / 33554432"
  unfolding singularW_value singularA_def
  by (simp add: det64_def ata00_64_def ata01_64_def ata10_64_def ata11_64_def accum64_def
      upt_2 rounded)

lemma solve64_singular:
  "solveWeightedLeastSquares64 singularA singularB singularW = \<lparr>xc = 256, yc = 0\<rparr>"
  unfolding solveWeightedLeastSquares64_def det64_singular
  unfolding singularW_value singularA_def singularB_def
  by (simp add: ata00_64_def ata01_64_def ata10_64_def ata11_64_def atb0_64_def atb1_64_def
      accum64_def upt_2 rounded)

text \<open>
  C7. Three sensors on one line give a singular weighted normal matrix: its determinant
  is \<open>0\<close>, below the threshold, and the mean of the rows of \<open>A\<close> is \<open>(120, 280)\<close>,
  which is what the solver returns over the reals. In double precision the weights
  \<open>1 / 3\<close> and \<open>1 / 7\<close> are rounded, the determinant the source computes is
  \<open>1 / 2 ^ 25\<close>, which is not below the threshold, and the source returns the quotient
  \<open>(256, 0)\<close> instead of the mean.
\<close>

theorem singular_system_not_centroid:
  "length singularPts = 3 \<and>
   linearSystem singularPts = (singularA, singularB, [1 / 3, 1 / 7]) \<and>
   det singularA [1 / 3, 1 / 7] = 0 \<and>
   xc (estimateMultiSensorPosition singularPts) = 120 \<and>
   yc (estimateMultiSensorPosition singularPts) = 280 \<and>
   singularW = [6004799503160661 / 18014398509481984, 2573485501354569 / 18014398509481984] \<and>
   det singularA singularW = 0 \<and>
   solveWeightedLeastSquares singularA singularB singularW = \<lparr>xc = 120, yc = 280\<rparr> \<and>
   det64 singularA singularW = 1 / 2 ^ 25 \<and>
   binary64 (1 / 10 ^ 10) \<le> \<bar>det64 singularA singularW\<bar> \<and>
   solveWeightedLeastSquares64 singularA singularB singularW = \<lparr>xc = 256, yc = 0\<rparr>"
proof -
  have l: "length singularPts = 3" by (simp add: singularPts_def)
  have d: "det64 singularA singularW = 1 / 2 ^ 25" by (simp add: det64_singular)
  have t: "binary64 (1 / 10 ^ 10) \<le> \<bar>det64 singularA singularW\<bar>"
    unfolding det64_singular by (simp add: rounded)
  show ?thesis
    by (intro conjI)
       (fact l sys_singular det_singular multi_singular singularW_value solve_singular d t
          solve64_singular)+
qed

section \<open>Kalman smoothing: the first call and the anchor\<close>

lemma applyKalmanFilter_first:
  "states dev = None \<Longrightarrow>
   applyKalmanFilter now dev la lo q states =
     (\<lparr>lat = la, lng = lo\<rparr>,
      states(dev \<mapsto> \<lparr>kx = [0, 0, 0, 0],
                      kP = [[100, 0, 0, 0], [0, 100, 0, 0], [0, 0, 10, 0], [0, 0, 0, 10]],
                      lastUpdate = now, refLat = la, refLng = lo\<rparr>))"
  by (simp add: applyKalmanFilter_def gpsToMeters_self createKalmanState_def
      kalman_core.extend_def kalman_state.fields_def)

lemma applyKalmanFilter_later:
  "states dev = Some s \<Longrightarrow>
   applyKalmanFilter now dev la lo q states =
     (let m = gpsToMeters la lo (refLat s) (refLng s);
          u = kalmanUpdate (kalmanPredict s kalman_dt) (xc m) (yc m) (measurementNoise * (1 + q / 10))
      in (metersToGps (kx u ! 0) (kx u ! 1) (refLat s) (refLng s),
          states(dev \<mapsto> s\<lparr>kx := kx u, kP := kP u, lastUpdate := now\<rparr>)))"
  by (simp add: applyKalmanFilter_def Let_def metersToGps_def)

lemma applyKalmanFilter_anchor:
  assumes "states dev = Some s"
  shows "\<exists>s'. snd (applyKalmanFilter now d la lo q states) dev = Some s' \<and>
              refLat s' = refLat s \<and> refLng s' = refLng s"
proof (cases "d = dev")
  case True
  with assms show ?thesis by (simp add: applyKalmanFilter_later Let_def)
next
  case False
  with assms show ?thesis
    by (cases "states d") (simp_all add: applyKalmanFilter_first applyKalmanFilter_later Let_def)
qed

lemma smootherRun_anchor:
  "states dev = Some s \<Longrightarrow>
   \<exists>s'. smootherRun calls states dev = Some s' \<and> refLat s' = refLat s \<and> refLng s' = refLng s"
proof (induction calls arbitrary: states s)
  case Nil
  then show ?case by (simp add: smootherRun_def)
next
  case (Cons c calls)
  obtain now d la lo q where c: "c = (now, d, la, lo, q)" by (cases c) auto
  from applyKalmanFilter_anchor [of states dev s now d la lo q] Cons.prems
  obtain s1 where s1: "snd (applyKalmanFilter now d la lo q states) dev = Some s1"
    "refLat s1 = refLat s" "refLng s1 = refLng s" by blast
  from Cons.IH [of "snd (applyKalmanFilter now d la lo q states)" s1] s1 show ?case
    by (simp add: smootherRun_def c)
qed

text \<open>
  C5. For a device without a state, the call returns the measured coordinate
  unchanged and stores a state with vector \<open>(0, 0, 0, 0)\<close>, covariance
  \<open>diag(100, 100, 10, 10)\<close> and the measurement as anchor. After any further calls the
  device still has a state with that anchor, and the next call for the device projects
  its measurement through that anchor and returns the updated position taken back
  through it.
\<close>

theorem kalman_first_call:
  assumes "states dev = None"
  shows "applyKalmanFilter now dev la lo q states =
           (\<lparr>lat = la, lng = lo\<rparr>,
            states(dev \<mapsto> \<lparr>kx = [0, 0, 0, 0],
                      kP = [[100, 0, 0, 0], [0, 100, 0, 0], [0, 0, 10, 0], [0, 0, 0, 10]],
                      lastUpdate = now, refLat = la, refLng = lo\<rparr>)) \<and>
         (\<exists>s. smootherRun calls (snd (applyKalmanFilter now dev la lo q states)) dev = Some s \<and>
              refLat s = la \<and> refLng s = lo \<and>
              fst (applyKalmanFilter now' dev la' lo' q'
                     (smootherRun calls (snd (applyKalmanFilter now dev la lo q states)))) =
                (let m = gpsToMeters la' lo' la lo;
                     u = kalmanUpdate (kalmanPredict s kalman_dt) (xc m) (yc m)
                           (measurementNoise * (1 + q' / 10))
                 in metersToGps (kx u ! 0) (kx u ! 1) la lo))"
proof -
  let ?st = "\<lparr>kx = [0, 0, 0, 0],
              kP = [[100, 0, 0, 0], [0, 100, 0, 0], [0, 0, 10, 0], [0, 0, 0, 10]],
              lastUpdate = now, refLat = la, refLng = lo\<rparr>"
  have first: "applyKalmanFilter now dev la lo q states = (\<lparr>lat = la, lng = lo\<rparr>, states(dev \<mapsto> ?st))"
    using assms by (rule applyKalmanFilter_first)
  have "(states(dev \<mapsto> ?st)) dev = Some ?st" by simp
  from smootherRun_anchor [of "states(dev \<mapsto> ?st)" dev ?st calls] this
  obtain s where s: "smootherRun calls (states(dev \<mapsto> ?st)) dev = Some s"
    "refLat s = la" "refLng s = lo" by auto
  from applyKalmanFilter_later [of "smootherRun calls (states(dev \<mapsto> ?st))" dev s now' la' lo' q'] s
  have "fst (applyKalmanFilter now' dev la' lo' q' (smootherRun calls (states(dev \<mapsto> ?st)))) =
          (let m = gpsToMeters la' lo' la lo;
               u = kalmanUpdate (kalmanPredict s kalman_dt) (xc m) (yc m)
                     (measurementNoise * (1 + q' / 10))
           in metersToGps (kx u ! 0) (kx u ! 1) la lo)"
    by (simp add: Let_def)
  with s first show ?thesis by auto
qed

theorem kalman_first_call_witness:
  "(Map.empty :: string \<rightharpoonup> kalman_state) ''d'' = None \<and>
   fst (applyKalmanFilter 0 ''d'' 50 6 5 Map.empty) = \<lparr>lat = 50, lng = 6\<rparr> \<and>
   (\<exists>s. smootherRun [(1, ''e'', 40, 5, 1), (2, ''d'', 51, 7, 3)]
          (snd (applyKalmanFilter 0 ''d'' 50 6 5 Map.empty)) ''d'' = Some s \<and>
        refLat s = 50 \<and> refLng s = 6)"
proof -
  have h: "(Map.empty :: string \<rightharpoonup> kalman_state) ''d'' = None" by simp
  have "applyKalmanFilter 0 ''d'' 50 6 5 Map.empty =
           (\<lparr>lat = 50, lng = 6\<rparr>,
            Map.empty(''d'' \<mapsto> \<lparr>kx = [0, 0, 0, 0],
                      kP = [[100, 0, 0, 0], [0, 100, 0, 0], [0, 0, 10, 0], [0, 0, 0, 10]],
                      lastUpdate = 0, refLat = 50, refLng = 6\<rparr>)) \<and>
         (\<exists>s. smootherRun [(1, ''e'', 40, 5, 1), (2, ''d'', 51, 7, 3)]
                (snd (applyKalmanFilter 0 ''d'' 50 6 5 Map.empty)) ''d'' = Some s \<and>
              refLat s = 50 \<and> refLng s = 6 \<and>
              fst (applyKalmanFilter 3 ''d'' 52 8 4
                     (smootherRun [(1, ''e'', 40, 5, 1), (2, ''d'', 51, 7, 3)]
                        (snd (applyKalmanFilter 0 ''d'' 50 6 5 Map.empty)))) =
                (let m = gpsToMeters 52 8 50 6;
                     u = kalmanUpdate (kalmanPredict s kalman_dt) (xc m) (yc m)
                           (measurementNoise * (1 + 4 / 10))
                 in metersToGps (kx u ! 0) (kx u ! 1) 50 6))"
    by (rule kalman_first_call [OF h])
  then show ?thesis using h by (metis fst_conv)
qed

section \<open>Enabling and disabling the smoother\<close>

text \<open>
  C10. Enabling the smoother clears every per-device state, whether or not it was
  enabled before; disabling it keeps the states; neither touches the result cache.
\<close>

theorem setKalmanEnabled_frame:
  "kalmanStates (setKalmanEnabled True st) = Map.empty \<and>
   kalmanStates (setKalmanEnabled False st) = kalmanStates st \<and>
   resultCache (setKalmanEnabled enabled st) = resultCache st \<and>
   kalmanEnabled (setKalmanEnabled enabled st) = enabled"
  by (simp add: setKalmanEnabled_def resetKalmanFilters_def Let_def)

section \<open>Time-window aggregation: the reading key\<close>

text \<open>
  C4. The aggregator keeps one reading per sensor and device pair, the first seen.
  It recognises a pair by the text \<open>sensor_key_device\<close>, and two different pairs can
  spell the same text: sensor \<open>s_1\<close> with device \<open>x\<close>, and sensor \<open>s\<close> with device
  \<open>1_x\<close>. The reading of the second pair is then dropped, and its device is missing
  from the result.
\<close>

theorem colliding_reading_key_drops_reading:
  "(''s_1'', ''x'') \<noteq> (''s'', ''1_x'') \<and>
   readingKey ''s_1'' ''x'' = readingKey ''s'' ''1_x'' \<and>
   getDevicesInTimeWindow fixtureTime collidingStore ''2024-01-01T00:00:00Z'' =
     [(''x'', [\<lparr>sensor_id = ''s_1'', distance = 3, rssi = Some (- 70), sensor_lat = 50,
                 sensor_lng = 6, mac_hashed = None,
                 original_timestamp = Some ''2024-01-01T00:00:00Z'',
                 time_offset_ms = Some 0\<rparr>])]"
  by (simp add: getDevicesInTimeWindow_def collidingStore_def addTimestamp_def fixtureTime_def
      addEntry_def addReading_def readingKey_def pushReading_def)

section \<open>The position list: what the guards keep\<close>

lemma positionStep_omits:
  assumes "fst (getCachedOrCompute64 solve timestamp mac obs cache) = None \<or>
           (\<exists>r. fst (getCachedOrCompute64 solve timestamp mac obs cache) = Some r \<and>
                (isNaN (lat64 r) \<or> isNaN (lng64 r)))"
  shows "fst (positionStep solve smooth enabled timestamp (results, cache, ks) (mac, obs)) = results"
  using assms
  by (cases "getCachedOrCompute64 solve timestamp mac obs cache")
     (auto simp: positionStep_def split: option.splits)

lemma positionStep_keeps:
  assumes "fst (getCachedOrCompute64 solve timestamp mac obs cache) = Some r"
      and "\<not> isNaN (lat64 r)" and "\<not> isNaN (lng64 r)"
  shows "\<exists>p. fst (positionStep solve smooth enabled timestamp (results, cache, ks) (mac, obs)) =
               results @ [p] \<and>
             macHashed p = mac \<and> rawLat p = lat64 r \<and> rawLng p = lng64 r \<and> kept p"
  using assms
  by (cases "getCachedOrCompute64 solve timestamp mac obs cache")
     (auto simp: positionStep_def kept_def estimate64.extend_def position.fields_def
           split: option.splits prod.splits if_splits)

lemma positionStep_kept:
  assumes "\<forall>p \<in> set (fst acc). kept p"
  shows "\<forall>p \<in> set (fst (positionStep solve smooth enabled timestamp acc dv)). kept p"
proof -
  obtain results cache ks where acc: "acc = (results, cache, ks)" by (cases acc) auto
  obtain mac obs where dv: "dv = (mac, obs)" by (cases dv) auto
  show ?thesis
  proof (cases "fst (getCachedOrCompute64 solve timestamp mac obs cache) = None \<or>
           (\<exists>r. fst (getCachedOrCompute64 solve timestamp mac obs cache) = Some r \<and>
                (isNaN (lat64 r) \<or> isNaN (lng64 r)))")
    case True
    from positionStep_omits [OF True, of smooth enabled results ks] assms show ?thesis
      by (simp add: acc dv)
  next
    case False
    then obtain r where r: "fst (getCachedOrCompute64 solve timestamp mac obs cache) = Some r"
      "\<not> isNaN (lat64 r)" "\<not> isNaN (lng64 r)" by auto
    from positionStep_keeps [OF r, of smooth enabled results ks] assms show ?thesis
      by (auto simp: acc dv)
  qed
qed

lemma positionStep_raw:
  "map rawOf (fst (positionStep solve smooth enabled timestamp (results, cache, ks) dv)) =
     map rawOf results @
     map computedOf (filter (\<lambda>d. passesGuard (snd d))
        [(fst dv, fst (getCachedOrCompute64 solve timestamp (fst dv) (snd dv) cache))])"
  by (cases dv; cases "getCachedOrCompute64 solve timestamp (fst dv) (snd dv) cache")
     (auto simp: positionStep_def passesGuard_def rawOf_def computedOf_def
        estimate64.extend_def position.fields_def split: option.splits prod.splits if_splits)

lemma positionStep_cache:
  "fst (snd (positionStep solve smooth enabled timestamp (results, cache, ks) dv)) =
     snd (getCachedOrCompute64 solve timestamp (fst dv) (snd dv) cache)"
  by (cases dv; cases "getCachedOrCompute64 solve timestamp (fst dv) (snd dv) cache")
     (auto simp: positionStep_def split: option.splits prod.splits if_splits)

lemma run_raw:
  "map rawOf (fst (foldl (positionStep solve smooth enabled timestamp) (results, cache, ks) devs)) =
     map rawOf results @
     map computedOf (filter (\<lambda>d. passesGuard (snd d)) (computedResults solve timestamp devs cache))"
proof (induction devs arbitrary: results cache ks)
  case Nil
  show ?case by simp
next
  case (Cons dv devs)
  obtain results1 cache1 ks1 where
    s: "positionStep solve smooth enabled timestamp (results, cache, ks) dv = (results1, cache1, ks1)"
    by (cases "positionStep solve smooth enabled timestamp (results, cache, ks) dv") auto
  from positionStep_raw [of solve smooth enabled timestamp results cache ks dv] s
  have r: "map rawOf results1 = map rawOf results @
     map computedOf (filter (\<lambda>d. passesGuard (snd d))
        [(fst dv, fst (getCachedOrCompute64 solve timestamp (fst dv) (snd dv) cache))])"
    by simp
  from positionStep_cache [of solve smooth enabled timestamp results cache ks dv] s
  have c: "cache1 = snd (getCachedOrCompute64 solve timestamp (fst dv) (snd dv) cache)"
    by simp
  show ?case
    by (simp add: s Cons.IH r c split: prod.splits)
qed

text \<open>
  C6. Whatever the solver and the smoother return, every position in the list returned by
  \<open>computeAllPositions\<close> has a latitude, a longitude, a raw latitude and a raw
  longitude that are not \<open>NaN\<close>. The returned list is, in order, the list of the
  devices of the query without those for which the solver returned nothing or a latitude
  or longitude that is \<open>NaN\<close>; each position carries its device and, as raw
  coordinates, the coordinates the solver returned. The function is total: nothing is
  raised.
\<close>

theorem computeAllPositions_guard:
  "(\<forall>p \<in> set (fst (computeAllPositions getTime dh solve smooth enabled timestamp st)).
      \<not> isNaN (lat64 p) \<and> \<not> isNaN (lng64 p) \<and> \<not> isNaN (rawLat p) \<and> \<not> isNaN (rawLng p)) \<and>
   map rawOf (fst (computeAllPositions getTime dh solve smooth enabled timestamp st)) =
     map computedOf
       (filter (\<lambda>d. passesGuard (snd d))
          (computedResults solve timestamp (getDevicesInTimeWindow getTime dh timestamp) (fst st)))"
proof -
  have "\<forall>p \<in> set (fst (computeAllPositions getTime dh solve smooth enabled timestamp st)). kept p"
    unfolding computeAllPositions_def
    by (rule foldl_invariant [where I = "\<lambda>a. \<forall>p \<in> set (fst a). kept p"])
       (simp_all add: positionStep_kept)
  then have A: "\<forall>p \<in> set (fst (computeAllPositions getTime dh solve smooth enabled timestamp st)).
      \<not> isNaN (lat64 p) \<and> \<not> isNaN (lng64 p) \<and> \<not> isNaN (rawLat p) \<and> \<not> isNaN (rawLng p)"
    by (simp add: kept_def)
  obtain cache ks where st: "st = (cache, ks)" by (cases st) auto
  have B: "map rawOf (fst (computeAllPositions getTime dh solve smooth enabled timestamp st)) =
     map computedOf
       (filter (\<lambda>d. passesGuard (snd d))
          (computedResults solve timestamp (getDevicesInTimeWindow getTime dh timestamp) (fst st)))"
    unfolding computeAllPositions_def st
    using run_raw [of solve smooth enabled timestamp "[]" cache ks] by simp
  show ?thesis by (intro conjI) (fact A B)+
qed

lemma devices_single:
  "getDevicesInTimeWindow fixtureTime singleStore T0 = [(''a'', [singleReading])]"
  unfolding T0_def by (rule agg_single)

lemma run_single:
  "computeAllPositions fixtureTime singleStore solve smooth enabled T0 st =
     positionStep solve smooth enabled T0 ([], st) (''a'', [singleReading])"
  by (simp add: computeAllPositions_def devices_single)

lemma miss: "getCachedOrCompute64 solve T0 ''a'' obs Map.empty =
    (solve obs, [getCacheKey T0 ''a'' \<mapsto> solve obs])"
  by (simp add: getCachedOrCompute64_def Let_def)

theorem computeAllPositions_guard_witness:
  "map rawOf (fst (computeAllPositions fixtureTime singleStore
       (solved64 (Number 50) (Number 6)) firstCallSmooth True T0 (Map.empty, ()))) =
     [(''a'', Some (Number 50, Number 6))] \<and>
   \<not> isNaN (lat64 (hd (fst (computeAllPositions fixtureTime singleStore
       (solved64 (Number 50) (Number 6)) firstCallSmooth True T0 (Map.empty, ()))))) \<and>
   \<not> isNaN (lng64 (hd (fst (computeAllPositions fixtureTime singleStore
       (solved64 (Number 50) (Number 6)) firstCallSmooth True T0 (Map.empty, ()))))) \<and>
   map rawOf (fst (computeAllPositions fixtureTime singleStore
       (solved64 NaN (Number 6)) firstCallSmooth True T0 (Map.empty, ()))) = [] \<and>
   map rawOf (fst (computeAllPositions fixtureTime singleStore
       noEstimate firstCallSmooth True T0 (Map.empty, ()))) = []"
proof -
  let ?ok = "solved64 (Number 50) (Number 6)"
  let ?bad = "solved64 NaN (Number 6)"
  let ?R = "fst (computeAllPositions fixtureTime singleStore ?ok firstCallSmooth True T0
              (Map.empty, ()))"
  note G = computeAllPositions_guard [of fixtureTime singleStore ?ok firstCallSmooth True T0
      "(Map.empty, ())"]
  note B = computeAllPositions_guard [of fixtureTime singleStore ?bad firstCallSmooth True T0
      "(Map.empty, ())"]
  note N = computeAllPositions_guard [of fixtureTime singleStore noEstimate firstCallSmooth
      True T0 "(Map.empty, ())"]
  have m: "map rawOf ?R = [(''a'', Some (Number 50, Number 6))]"
    unfolding G [THEN conjunct2]
    by (simp add: devices_single miss solved64_def passesGuard_def isNaN_def computedOf_def)
  then have "?R \<noteq> []" by auto
  then have "hd ?R \<in> set ?R" by simp
  with G [THEN conjunct1] have h: "\<not> isNaN (lat64 (hd ?R))" "\<not> isNaN (lng64 (hd ?R))"
    by blast+
  have b: "map rawOf (fst (computeAllPositions fixtureTime singleStore ?bad firstCallSmooth True T0
              (Map.empty, ()))) = []"
    unfolding B [THEN conjunct2]
    by (simp add: devices_single miss solved64_def passesGuard_def isNaN_def)
  have n: "map rawOf (fst (computeAllPositions fixtureTime singleStore noEstimate
              firstCallSmooth True T0 (Map.empty, ()))) = []"
    unfolding N [THEN conjunct2]
    by (simp add: devices_single miss passesGuard_def noEstimate_def)
  show ?thesis by (intro conjI) (fact m h b n)+
qed

text \<open>
  A longitude of \<open>-\<infinity>\<close> is not \<open>NaN\<close>: with the smoother off or on, the position
  is returned with it, although it is not finite.
\<close>

theorem infinite_coordinate_counterexample:
  "map macHashed (fst (computeAllPositions fixtureTime singleStore
       (solved64 (Number 50) NegInfinity) firstCallSmooth False T0 (Map.empty, ()))) = [''a''] \<and>
   map lng64 (fst (computeAllPositions fixtureTime singleStore
       (solved64 (Number 50) NegInfinity) firstCallSmooth False T0 (Map.empty, ()))) = [NegInfinity] \<and>
   map macHashed (fst (computeAllPositions fixtureTime singleStore
       (solved64 (Number 50) NegInfinity) firstCallSmooth True T0 (Map.empty, ()))) = [''a''] \<and>
   map lng64 (fst (computeAllPositions fixtureTime singleStore
       (solved64 (Number 50) NegInfinity) firstCallSmooth True T0 (Map.empty, ()))) = [NegInfinity] \<and>
   \<not> isNaN NegInfinity \<and> \<not> isFinite NegInfinity"
  by (simp add: run_single positionStep_def miss solved64_def isNaN_def isFinite_def
      firstCallSmooth_def varianceOr5_def estimate64.extend_def position.fields_def)

end
